theory Spec2Isabelle
  imports Complex_Main
begin

section \<open>Data model\<close>

text \<open>
  The backend keeps its documents in collections of a document database.  A collection is
  modelled as the list of its documents in insertion order; a document carries its
  \<^verbatim>\<open>_id\<close>.  Generated identifiers (\<^verbatim>\<open>_id\<close> of carts and orders) are natural numbers, the
  identifiers that only ever arrive from outside (users, products, tickets, order numbers) are
  strings.  A JavaScript \<^verbatim>\<open>number\<close> is modelled as an exact rational, a \<^verbatim>\<open>Date\<close> as a
  natural number.

  Left out are Mongoose's \<^verbatim>\<open>createdAt\<close>/\<^verbatim>\<open>updatedAt\<close> timestamps, the message texts of the
  HTTP replies (the webhook's reply apart, whose message is the handler's result), logging,
  and the failures of the database itself: a query or a \<^verbatim>\<open>save\<close> that throws, schema
  validation included.  The controllers hand only positive quantities to the cart
  repository, so the schema's \<^verbatim>\<open>min: 1\<close> on a line's quantity is met on those paths.
\<close>

type_synonym number = rat

text \<open>Product (models/Product.ts), restricted to the fields the cart and order code reads.\<close>

record Product =
  product_id :: string
  title :: string
  price :: number
  stock :: number
  thumbnail :: string

text \<open>OrderItem, ShippingAddress and Order (models/Order.ts).\<close>

record OrderItem =
  productId :: string
  title :: string
  price :: number
  quantity :: number
  thumbnail :: string

record ShippingAddress =
  street :: string
  city :: string
  state :: string
  postalCode :: string
  country :: string
  isDefault :: bool

record Order =
  order_id :: nat
  userId :: string
  items :: "OrderItem list"
  totalAmount :: number
  totalItems :: number
  shippingAddress :: ShippingAddress
  paymentMethod :: string
  paymentStatus :: string
  orderStatus :: string
  sessionId :: "string option"
  transactionId :: "string option"
  orderNumber :: string
  isActive :: bool

text \<open>TicketStatus, UserRole, ITicketMessage and ITicket (models/Ticket.ts, models/User.ts).\<close>

datatype TicketStatus = OPEN | IN_PROGRESS | WAITING_CUSTOMER | RESOLVED | CLOSED

datatype UserRole = USER | ADMIN | SUPER_ADMIN

record ITicketMessage =
  sender :: string
  senderRole :: UserRole
  message :: string
  attachments :: "string list"
  createdAt :: nat

record ITicket =
  ticketId :: string
  user :: string
  subject :: string
  status :: TicketStatus
  messages :: "ITicketMessage list"
  lastResponseAt :: "nat option"
  isEscalated :: bool

text \<open>CartItem and Cart (models/Cart.ts).  A guest cart has \<open>userId = None\<close>.\<close>

record CartItem =
  productId :: string
  title :: string
  price :: number
  quantity :: number
  thumbnail :: string
  addedAt :: nat

record Cart =
  cart_id :: nat
  userId :: "string option"
  items :: "CartItem list"
  totalAmount :: number
  totalItems :: number
  isActive :: bool

text \<open>
  The reply of a controller: the status code and the \<^verbatim>\<open>success\<close> and \<^verbatim>\<open>data\<close> fields of
  the JSON envelope.
\<close>

record 'a Response =
  statusCode :: nat
  success :: bool
  data :: "'a option"

definition reply :: "nat \<Rightarrow> bool \<Rightarrow> 'a option \<Rightarrow> 'a Response" where
  "reply code ok d = \<lparr>statusCode = code, success = ok, data = d\<rparr>"

text \<open>JavaScript truthiness of an optional string: \<^verbatim>\<open>undefined\<close> and \<^verbatim>\<open>''\<close> are falsy.\<close>

definition truthy :: "string option \<Rightarrow> bool" where
  "truthy v = (case v of None \<Rightarrow> False | Some s \<Rightarrow> s \<noteq> [])"

text \<open>\<^verbatim>\<open>a || b\<close> on optional strings.\<close>

definition orElse :: "string option \<Rightarrow> string option \<Rightarrow> string option" where
  "orElse a b = (if truthy a then a else b)"

text \<open>
  \<^verbatim>\<open>Array.prototype.findIndex\<close>: the index of the first element satisfying the predicate;
  JavaScript's \<open>-1\<close> is \<open>None\<close>.
\<close>

fun findIndex :: "('a \<Rightarrow> bool) \<Rightarrow> 'a list \<Rightarrow> nat option" where
  "findIndex P [] = None"
| "findIndex P (x # xs) =
     (if P x then Some 0 else map_option Suc (findIndex P xs))"

text \<open>\<^verbatim>\<open>xs.splice(i, 1)\<close>: drop the element at index \<open>i\<close>.\<close>

definition splice1 :: "nat \<Rightarrow> 'a list \<Rightarrow> 'a list" where
  "splice1 i xs = take i xs @ drop (Suc i) xs"

section \<open>CartRepository\<close>

text \<open>The next free \<^verbatim>\<open>_id\<close> of a collection whose documents carry the ids \<open>ids\<close>.\<close>

definition freshId :: "nat list \<Rightarrow> nat" where
  "freshId ids = Suc (fold max ids 0)"

text \<open>\<^verbatim>\<open>CartModel.findById\<close> and \<^verbatim>\<open>CartModel.findOne({userId, isActive: true})\<close>.\<close>

definition CartRepository_findById :: "nat \<Rightarrow> Cart list \<Rightarrow> Cart option" where
  "CartRepository_findById i db = find (\<lambda>c. cart_id c = i) db"

definition CartRepository_findByUserId :: "string \<Rightarrow> Cart list \<Rightarrow> Cart option" where
  "CartRepository_findByUserId u db =
     find (\<lambda>c. Cart.userId c = Some u \<and> Cart.isActive c) db"

text \<open>\<^verbatim>\<open>cart.save()\<close> of a loaded document: the stored document with its \<^verbatim>\<open>_id\<close> is replaced.\<close>

fun CartRepository_save :: "Cart \<Rightarrow> Cart list \<Rightarrow> Cart list" where
  "CartRepository_save c [] = []"
| "CartRepository_save c (d # ds) =
     (if cart_id d = cart_id c then c # ds else d # CartRepository_save c ds)"

text \<open>\<^verbatim>\<open>CartModel.findByIdAndUpdate(id, update, {new: true})\<close> with the update as a function.\<close>

definition CartRepository_findByIdAndUpdate ::
  "nat \<Rightarrow> (Cart \<Rightarrow> Cart) \<Rightarrow> Cart list \<Rightarrow> Cart option \<times> Cart list" where
  "CartRepository_findByIdAndUpdate i upd db =
     (case CartRepository_findById i db of
        None \<Rightarrow> (None, db)
      | Some c \<Rightarrow> (Some (upd c), CartRepository_save (upd c) db))"

text \<open>
  \<^verbatim>\<open>create\<close>: a new document gets a fresh \<^verbatim>\<open>_id\<close> and is appended to the collection.
  Every caller passes no items, totals of 0 and \<^verbatim>\<open>isActive: true\<close>; only the owner varies.
\<close>

definition CartRepository_create :: "string option \<Rightarrow> Cart list \<Rightarrow> Cart \<times> Cart list" where
  "CartRepository_create u db =
     (let c = \<lparr>cart_id = freshId (map cart_id db), userId = u, items = [],
               totalAmount = 0, totalItems = 0, isActive = True\<rparr>
      in (c, db @ [c]))"

text \<open>
  The block \<^verbatim>\<open>// Recalculate totals\<close>, the same two \<^verbatim>\<open>reduce\<close> calls in \<^verbatim>\<open>addItem\<close>,
  \<^verbatim>\<open>updateItemQuantity\<close>, \<^verbatim>\<open>removeItem\<close> and \<^verbatim>\<open>mergeGuestCart\<close>.
\<close>

definition recalculateTotals :: "Cart \<Rightarrow> Cart" where
  "recalculateTotals c =
     c\<lparr>totalItems := foldl (\<lambda>total item. total + quantity item) 0 (items c),
       totalAmount := foldl (\<lambda>total item. total + price item * quantity item) 0 (items c)\<rparr>"

text \<open>
  The body shared by \<^verbatim>\<open>addItem\<close> and the loop of \<^verbatim>\<open>mergeGuestCart\<close>: look the product up by
  \<^verbatim>\<open>findIndex\<close>; raise the quantity of the line found, or push the item.
\<close>

definition addOrIncrement :: "CartItem \<Rightarrow> CartItem list \<Rightarrow> CartItem list" where
  "addOrIncrement item xs =
     (case findIndex (\<lambda>cartItem. productId cartItem = productId item) xs of
        Some i \<Rightarrow> xs[i := (xs ! i)\<lparr>quantity := quantity (xs ! i) + quantity item\<rparr>]
      | None \<Rightarrow> xs @ [item])"

definition CartRepository_addItem ::
  "nat \<Rightarrow> CartItem \<Rightarrow> Cart list \<Rightarrow> Cart option \<times> Cart list" where
  "CartRepository_addItem cartId item db =
     (case CartRepository_findById cartId db of
        None \<Rightarrow> (None, db)
      | Some cart \<Rightarrow>
          (let cart' = recalculateTotals (cart\<lparr>items := addOrIncrement item (items cart)\<rparr>)
           in (Some cart', CartRepository_save cart' db)))"

definition CartRepository_updateItemQuantity ::
  "nat \<Rightarrow> string \<Rightarrow> number \<Rightarrow> Cart list \<Rightarrow> Cart option \<times> Cart list" where
  "CartRepository_updateItemQuantity cartId pid qty db =
     (case CartRepository_findById cartId db of
        None \<Rightarrow> (None, db)
      | Some cart \<Rightarrow>
          (case findIndex (\<lambda>item. productId item = pid) (items cart) of
             None \<Rightarrow> (None, db)
           | Some itemIndex \<Rightarrow>
               (let items' =
                      (if qty \<le> 0 then splice1 itemIndex (items cart)
                       else (items cart)[itemIndex :=
                              (items cart ! itemIndex)\<lparr>quantity := qty\<rparr>]);
                    cart' = recalculateTotals (cart\<lparr>items := items'\<rparr>)
                in (Some cart', CartRepository_save cart' db))))"

definition CartRepository_removeItem ::
  "nat \<Rightarrow> string \<Rightarrow> Cart list \<Rightarrow> Cart option \<times> Cart list" where
  "CartRepository_removeItem cartId pid db =
     (case CartRepository_findById cartId db of
        None \<Rightarrow> (None, db)
      | Some cart \<Rightarrow>
          (let cart' = recalculateTotals
                 (cart\<lparr>items := filter (\<lambda>item. productId item \<noteq> pid) (items cart)\<rparr>)
           in (Some cart', CartRepository_save cart' db)))"

definition CartRepository_clearCart :: "nat \<Rightarrow> Cart list \<Rightarrow> Cart option \<times> Cart list" where
  "CartRepository_clearCart cartId db =
     (case CartRepository_findById cartId db of
        None \<Rightarrow> (None, db)
      | Some cart \<Rightarrow>
          (let cart' = cart\<lparr>items := [], totalItems := 0, totalAmount := 0\<rparr>
           in (Some cart', CartRepository_save cart' db)))"

definition CartRepository_deactivateCart :: "nat \<Rightarrow> Cart list \<Rightarrow> Cart option \<times> Cart list" where
  "CartRepository_deactivateCart cartId db =
     CartRepository_findByIdAndUpdate cartId (\<lambda>c. c\<lparr>isActive := False\<rparr>) db"

definition CartRepository_getOrCreateCart ::
  "string option \<Rightarrow> nat option \<Rightarrow> Cart list \<Rightarrow> Cart \<times> Cart list" where
  "CartRepository_getOrCreateCart uid guestId db =
     (let owner = (if truthy uid then uid else None);
          cart = (case owner of
                    Some u \<Rightarrow> CartRepository_findByUserId u db
                  | None \<Rightarrow> (case guestId of
                               Some g \<Rightarrow> CartRepository_findById g db
                             | None \<Rightarrow> None))
      in case cart of
           Some c \<Rightarrow> (c, db)
         | None \<Rightarrow> CartRepository_create owner db)"

text \<open>The \<^verbatim>\<open>for (const guestItem of guestCart.items)\<close> loop of \<^verbatim>\<open>mergeGuestCart\<close>.\<close>

fun mergeItems :: "CartItem list \<Rightarrow> CartItem list \<Rightarrow> CartItem list" where
  "mergeItems [] userItems = userItems"
| "mergeItems (guestItem # rest) userItems = mergeItems rest (addOrIncrement guestItem userItems)"

definition CartRepository_mergeGuestCart ::
  "nat \<Rightarrow> string \<Rightarrow> Cart list \<Rightarrow> Cart option \<times> Cart list" where
  "CartRepository_mergeGuestCart guestCartId uid db =
     (case CartRepository_findById guestCartId db of
        None \<Rightarrow> (None, db)
      | Some guestCart \<Rightarrow>
          (case CartRepository_findByUserId uid db of
             None \<Rightarrow>
               CartRepository_findByIdAndUpdate guestCartId (\<lambda>c. c\<lparr>userId := Some uid\<rparr>) db
           | Some userCart \<Rightarrow>
               (let userCart' = recalculateTotals
                      (userCart\<lparr>items := mergeItems (items guestCart) (items userCart)\<rparr>);
                    db' = CartRepository_save userCart' db
                in (Some userCart', snd (CartRepository_deactivateCart guestCartId db')))))"

section \<open>ProductRepository, OrderRepository, TicketRepository\<close>

definition ProductRepository_findById :: "string \<Rightarrow> Product list \<Rightarrow> Product option" where
  "ProductRepository_findById i db = find (\<lambda>p. product_id p = i) db"

definition OrderRepository_findById :: "nat \<Rightarrow> Order list \<Rightarrow> Order option" where
  "OrderRepository_findById i db = find (\<lambda>ord. order_id ord = i) db"

definition OrderRepository_findByOrderNumber :: "string \<Rightarrow> Order list \<Rightarrow> Order option" where
  "OrderRepository_findByOrderNumber n db =
     find (\<lambda>ord. orderNumber ord = n \<and> Order.isActive ord) db"

text \<open>
  \<^verbatim>\<open>new OrderModel(orderData).save()\<close>: the document gets a fresh \<^verbatim>\<open>_id\<close>.  The order
  number, which the \<^verbatim>\<open>pre('validate')\<close> hook builds from the clock and a random number, is
  already part of the argument.
\<close>

definition OrderRepository_create :: "Order \<Rightarrow> Order list \<Rightarrow> Order \<times> Order list" where
  "OrderRepository_create orderData db =
     (let ord = orderData\<lparr>order_id := freshId (map order_id db)\<rparr> in (ord, db @ [ord]))"

text \<open>\<^verbatim>\<open>OrderModel.findByIdAndUpdate(id, update, {new: true})\<close>.\<close>

fun OrderRepository_replace :: "Order \<Rightarrow> Order list \<Rightarrow> Order list" where
  "OrderRepository_replace ord [] = []"
| "OrderRepository_replace ord (d # ds) =
     (if order_id d = order_id ord then ord # ds else d # OrderRepository_replace ord ds)"

definition OrderRepository_findByIdAndUpdate ::
  "nat \<Rightarrow> (Order \<Rightarrow> Order) \<Rightarrow> Order list \<Rightarrow> Order option \<times> Order list" where
  "OrderRepository_findByIdAndUpdate i upd db =
     (case OrderRepository_findById i db of
        None \<Rightarrow> (None, db)
      | Some ord \<Rightarrow> (Some (upd ord), OrderRepository_replace (upd ord) db))"


definition OrderRepository_updatePaymentStatus ::
  "nat \<Rightarrow> string \<Rightarrow> string option \<Rightarrow> Order list \<Rightarrow> Order option \<times> Order list" where
  "OrderRepository_updatePaymentStatus orderId st txn db =
     OrderRepository_findByIdAndUpdate orderId
       (\<lambda>ord. if truthy txn then ord\<lparr>paymentStatus := st, transactionId := txn\<rparr>
               else ord\<lparr>paymentStatus := st\<rparr>) db"

definition OrderRepository_updateSessionId ::
  "nat \<Rightarrow> string \<Rightarrow> Order list \<Rightarrow> Order option \<times> Order list" where
  "OrderRepository_updateSessionId orderId sid db =
     OrderRepository_findByIdAndUpdate orderId (\<lambda>ord. ord\<lparr>sessionId := Some sid\<rparr>) db"


definition OrderRepository_deactivateOrder :: "nat \<Rightarrow> Order list \<Rightarrow> bool \<times> Order list" where
  "OrderRepository_deactivateOrder orderId db =
     (case OrderRepository_findByIdAndUpdate orderId (\<lambda>ord. ord\<lparr>Order.isActive := False\<rparr>) db of
        (result, db') \<Rightarrow> (result \<noteq> None, db'))"

definition TicketRepository_findByTicketId :: "string \<Rightarrow> ITicket list \<Rightarrow> ITicket option" where
  "TicketRepository_findByTicketId tid db = find (\<lambda>t. ticketId t = tid) db"

text \<open>\<^verbatim>\<open>TicketModel.findOneAndUpdate({ticketId}, update, {new: true})\<close>.\<close>

fun TicketRepository_findOneAndUpdate ::
  "string \<Rightarrow> (ITicket \<Rightarrow> ITicket) \<Rightarrow> ITicket list \<Rightarrow> ITicket option \<times> ITicket list" where
  "TicketRepository_findOneAndUpdate tid upd [] = (None, [])"
| "TicketRepository_findOneAndUpdate tid upd (t # ts) =
     (if ticketId t = tid then (Some (upd t), upd t # ts)
      else (case TicketRepository_findOneAndUpdate tid upd ts of
              (result, ts') \<Rightarrow> (result, t # ts')))"

definition TicketRepository_addMessage ::
  "string \<Rightarrow> ITicketMessage \<Rightarrow> ITicket list \<Rightarrow> ITicket option \<times> ITicket list" where
  "TicketRepository_addMessage tid messageData db =
     TicketRepository_findOneAndUpdate tid
       (\<lambda>t. t\<lparr>messages := messages t @ [messageData],
               lastResponseAt := Some (createdAt messageData)\<rparr>) db"

definition TicketRepository_updateStatus ::
  "string \<Rightarrow> TicketStatus \<Rightarrow> ITicket list \<Rightarrow> ITicket option \<times> ITicket list" where
  "TicketRepository_updateStatus tid st db =
     TicketRepository_findOneAndUpdate tid (\<lambda>t. t\<lparr>status := st\<rparr>) db"

section \<open>Requests, the payment gateway and the database\<close>

text \<open>
  The payload of a webhook call: the fields the handler reads, \<^verbatim>\<open>type\<close>, \<^verbatim>\<open>id\<close>,
  \<^verbatim>\<open>data.object.id\<close>, \<^verbatim>\<open>orderNum\<close> and \<^verbatim>\<open>metadata.orderNum\<close>, and two it does not read: the
  order number that \<^verbatim>\<open>createOrder\<close> attaches to the checkout session as metadata,
  \<^verbatim>\<open>data.object.metadata.orderNumber\<close>, and the status the payload itself reports,
  \<^verbatim>\<open>data.object.payment_status\<close>.
\<close>

record WebhookEvent =
  event_type :: "string option"
  event_id :: "string option"
  data_object_id :: "string option"
  orderNum :: "string option"
  metadata_orderNum :: "string option"
  data_object_metadata_orderNumber :: "string option"
  data_object_payment_status :: "string option"

text \<open>A checkout session as the gateway reports it.\<close>

record StripeSession =
  session_id :: string
  payment_status :: string
  url :: "string option"

text \<open>
  The payment gateway behind \<^verbatim>\<open>StripeService\<close>, an external collaborator: each call is a
  function of its arguments, \<open>None\<close> when the call throws.
\<close>

record StripeService =
  createCheckoutSession ::
    "OrderItem list \<Rightarrow> string \<Rightarrow> string \<Rightarrow> nat \<times> string \<times> string \<Rightarrow> StripeSession option"
  retrieveCheckoutSession :: "string \<Rightarrow> StripeSession option"
  verifyWebhookSignature :: "WebhookEvent option \<Rightarrow> string \<Rightarrow> WebhookEvent option"

text \<open>
  The parts of an Express request the controllers read: \<^verbatim>\<open>req.user?._id\<close>, the
  \<^verbatim>\<open>guest_id\<close> cookie, the \<^verbatim>\<open>stripe-signature\<close> header, the route parameters and the fields
  of the JSON body (the whole body, for the webhook).
\<close>

record Request =
  user_id :: "string option"
  cookies_guest_id :: "nat option"
  headers_stripe_signature :: "string option"
  params_productId :: string
  params_orderId :: "nat option"
  params_ticketId :: string
  body_quantity :: "number option"
  body_shippingAddress :: "ShippingAddress option"
  body_paymentMethod :: "string option"
  body_successUrl :: "string option"
  body_cancelUrl :: "string option"
  body_status :: "string option"
  body_message :: "string option"
  body_attachments :: "string list option"
  body :: "WebhookEvent option"

text \<open>
  The collections, and the session ids for which a refund has been requested from the
  gateway.
\<close>

record Database =
  carts :: "Cart list"
  products :: "Product list"
  orders :: "Order list"
  tickets :: "ITicket list"
  refundsRequested :: "string list"

text \<open>A truthy optional string as such, a falsy one as \<open>None\<close>; and the text of a value.\<close>

definition nonEmpty :: "string option \<Rightarrow> string option" where
  "nonEmpty v = (if truthy v then v else None)"

definition textOf :: "string option \<Rightarrow> string" where
  "textOf v = (case v of None \<Rightarrow> ''undefined'' | Some s \<Rightarrow> s)"

section \<open>OrderController\<close>

text \<open>
  The loop \<^verbatim>\<open>for (const cartItem of cart.items)\<close> of \<^verbatim>\<open>createOrder\<close>.  Both early returns
  answer 400; the accumulator carries \<^verbatim>\<open>orderItems\<close>, \<^verbatim>\<open>totalAmount\<close> and \<^verbatim>\<open>totalItems\<close>
  (here \<open>amount\<close> and \<open>count\<close>).
\<close>

datatype CheckoutFailure = ProductNotFound string | InsufficientStock string number

fun validateCartItems ::
  "Product list \<Rightarrow> CartItem list \<Rightarrow> OrderItem list \<times> number \<times> number
     \<Rightarrow> CheckoutFailure + OrderItem list \<times> number \<times> number" where
  "validateCartItems ps [] acc = Inr acc"
| "validateCartItems ps (cartItem # rest) (orderItems, amount, count) =
     (case ProductRepository_findById (productId cartItem) ps of
        None \<Rightarrow> Inl (ProductNotFound (productId cartItem))
      | Some product \<Rightarrow>
          if stock product < quantity cartItem
          then Inl (InsufficientStock (Product.title product) (stock product))
          else validateCartItems ps rest
                 (orderItems @ [\<lparr>OrderItem.productId = product_id product,
                                  title = Product.title product,
                                  price = Product.price product,
                                  quantity = quantity cartItem,
                                  thumbnail = Product.thumbnail product\<rparr>],
                  amount + Product.price product * quantity cartItem,
                  count + quantity cartItem))"

text \<open>
  \<^verbatim>\<open>createOrder\<close>.  \<open>gw\<close> is the gateway and \<open>generated\<close> the order number the model hook
  generates for the new document.
\<close>

definition OrderController_createOrder ::
  "StripeService \<Rightarrow> string \<Rightarrow> Request \<Rightarrow> Database
     \<Rightarrow> (Order \<times> StripeSession option) Response \<times> Database" where
  "OrderController_createOrder gw generated req db =
     (case nonEmpty (user_id req) of
        None \<Rightarrow> (reply 401 False None, db)
      | Some uid \<Rightarrow>
     (case (body_shippingAddress req, nonEmpty (body_paymentMethod req)) of
        (Some addr, Some pm) \<Rightarrow>
          if pm \<notin> set [''ONLINE'', ''COD''] then (reply 400 False None, db)
          else if pm = ''ONLINE'' \<and>
                  (\<not> truthy (body_successUrl req) \<or> \<not> truthy (body_cancelUrl req))
          then (reply 400 False None, db)
          else
     (case CartRepository_findByUserId uid (carts db) of
        None \<Rightarrow> (reply 400 False None, db)
      | Some cart \<Rightarrow>
          if items cart = [] then (reply 400 False None, db)
          else
     (case validateCartItems (products db) (items cart) ([], 0, 0) of
        Inl failure \<Rightarrow> (reply 400 False None, db)
      | Inr (orderItems, amount, count) \<Rightarrow>
     (case OrderRepository_create
             \<lparr>order_id = 0, userId = uid, items = orderItems, totalAmount = amount,
              totalItems = count, shippingAddress = addr, paymentMethod = pm,
              paymentStatus = ''PENDING'', orderStatus = ''PENDING'', sessionId = None,
              transactionId = None, orderNumber = generated, isActive = True\<rparr>
             (orders db) of
        (order, orders1) \<Rightarrow>
          if pm = ''ONLINE'' then
            (case createCheckoutSession gw orderItems (textOf (body_successUrl req))
                    (textOf (body_cancelUrl req)) (order_id order, orderNumber order, uid) of
               None \<Rightarrow>
                 (reply 500 False None,
                  db\<lparr>orders := snd (OrderRepository_deactivateOrder (order_id order) orders1)\<rparr>)
             | Some checkoutSession \<Rightarrow>
                 (case OrderRepository_updateSessionId (order_id order)
                         (session_id checkoutSession) orders1 of
                    (updatedOrder, orders2) \<Rightarrow>
                      (reply 201 True
                         (Some (case updatedOrder of Some u \<Rightarrow> u | None \<Rightarrow> order,
                                Some checkoutSession)),
                       db\<lparr>orders := orders2,
                          carts := snd (CartRepository_clearCart (cart_id cart) (carts db))\<rparr>)))
          else
            (reply 201 True (Some (order, None)),
             db\<lparr>orders := orders1,
                carts := snd (CartRepository_clearCart (cart_id cart) (carts db))\<rparr>))))
      | _ \<Rightarrow> (reply 400 False None, db)))"




section \<open>StripeWebhookController\<close>

record WebhookResult =
  processed :: bool
  message :: string

text \<open>
  \<^verbatim>\<open>handleCheckoutSessionCompleted\<close>.  Its parameter, called \<^verbatim>\<open>session\<close> in the source, is the
  event that \<^verbatim>\<open>processWebhookEvent\<close> passes on.
\<close>

definition StripeWebhookController_handleCheckoutSessionCompleted ::
  "StripeService \<Rightarrow> WebhookEvent \<Rightarrow> Order list \<Rightarrow> WebhookResult \<times> Order list" where
  "StripeWebhookController_handleCheckoutSessionCompleted gw session db =
     (case (nonEmpty (orElse (event_id session) (data_object_id session)),
            nonEmpty (orElse (orderNum session) (metadata_orderNum session))) of
        (Some sid, Some num) \<Rightarrow>
          (case retrieveCheckoutSession gw sid of
             None \<Rightarrow>
               (\<lparr>processed = False, message = ''Failed to retrieve session from Stripe''\<rparr>, db)
           | Some stripeSession \<Rightarrow>
               (case OrderRepository_findByOrderNumber num db of
                  None \<Rightarrow> (\<lparr>processed = False, message = ''Order not found: '' @ num\<rparr>, db)
                | Some order \<Rightarrow>
                    (let st = (if payment_status stripeSession = ''paid''
                               then ''PAID'' else ''PENDING'')
                     in case OrderRepository_updatePaymentStatus (order_id order) st (Some sid) db of
                          (Some updatedOrder, db') \<Rightarrow>
                            (\<lparr>processed = True,
                              message = ''Checkout processed for order '' @ orderNumber order
                                          @ '' with status: '' @ st\<rparr>, db')
                        | (None, db') \<Rightarrow>
                            (\<lparr>processed = True,
                              message = ''Checkout session processed: '' @ sid\<rparr>, db'))))
      | _ \<Rightarrow> (\<lparr>processed = False, message = ''Missing session ID or order ID''\<rparr>, db))"

definition StripeWebhookController_processWebhookEvent ::
  "StripeService \<Rightarrow> WebhookEvent \<Rightarrow> Order list \<Rightarrow> WebhookResult \<times> Order list" where
  "StripeWebhookController_processWebhookEvent gw event db =
     (if event_type event = Some ''checkout.session.completed''
      then StripeWebhookController_handleCheckoutSessionCompleted gw event db
      else (\<lparr>processed = False,
             message = ''Unhandled event type: '' @ textOf (event_type event)\<rparr>, db))"

text \<open>
  The first half of \<^verbatim>\<open>handleWebhook\<close>: the event comes from the signature check, or, without
  a signature (or with the test signature), from the body as it is.  \<open>None\<close> is the 400 reply.
\<close>

definition StripeWebhookController_receiveEvent ::
  "StripeService \<Rightarrow> Request \<Rightarrow> WebhookEvent option" where
  "StripeWebhookController_receiveEvent gw req =
     (let sig = headers_stripe_signature req
      in if truthy sig \<and> sig \<noteq> Some ''test-signature''
         then verifyWebhookSignature gw (body req) (textOf sig)
         else (case body req of
                 None \<Rightarrow> None
               | Some event \<Rightarrow> if \<not> truthy (event_type event) then None else Some event))"

text \<open>\<^verbatim>\<open>handleWebhook\<close>; the reply carries the message of the result.\<close>

definition StripeWebhookController_handleWebhook ::
  "StripeService \<Rightarrow> Request \<Rightarrow> Database \<Rightarrow> string Response \<times> Database" where
  "StripeWebhookController_handleWebhook gw req db =
     (case StripeWebhookController_receiveEvent gw req of
        None \<Rightarrow> (reply 400 False None, db)
      | Some event \<Rightarrow>
          (case StripeWebhookController_processWebhookEvent gw event (orders db) of
             (result, orders') \<Rightarrow>
               if processed result
               then (reply 200 True (Some (message result)), db\<lparr>orders := orders'\<rparr>)
               else (reply 200 True (Some (message result)), db\<lparr>orders := orders'\<rparr>)))"

section \<open>TicketController\<close>

text \<open>\<^verbatim>\<open>addMessage\<close> of the user route; \<open>now\<close> is \<^verbatim>\<open>new Date()\<close>.\<close>

definition TicketController_addMessage ::
  "nat \<Rightarrow> Request \<Rightarrow> Database \<Rightarrow> ITicket Response \<times> Database" where
  "TicketController_addMessage now req db =
     (case nonEmpty (user_id req) of
        None \<Rightarrow> (reply 401 False None, db)
      | Some uid \<Rightarrow>
     (case nonEmpty (body_message req) of
        None \<Rightarrow> (reply 400 False None, db)
      | Some msg \<Rightarrow>
     (case TicketRepository_findByTicketId (params_ticketId req) (tickets db) of
        None \<Rightarrow> (reply 404 False None, db)
      | Some ticket \<Rightarrow>
          if user ticket \<noteq> uid then (reply 403 False None, db)
          else
            (let messageData =
                   \<lparr>sender = uid, senderRole = USER, message = msg,
                    attachments = (case body_attachments req of Some a \<Rightarrow> a | None \<Rightarrow> []),
                    createdAt = now\<rparr>
             in case TicketRepository_addMessage (params_ticketId req) messageData (tickets db) of
                  (updatedTicket, tickets1) \<Rightarrow>
                    (let newStatus = (if status ticket = WAITING_CUSTOMER then OPEN
                                      else status ticket)
                     in case TicketRepository_updateStatus (params_ticketId req) newStatus tickets1 of
                          (result, tickets2) \<Rightarrow>
                            (reply 200 True updatedTicket, db\<lparr>tickets := tickets2\<rparr>))))))"

section \<open>CartController\<close>

definition CartController_getOrCreateCart :: "Request \<Rightarrow> Cart list \<Rightarrow> Cart \<times> Cart list" where
  "CartController_getOrCreateCart req db =
     CartRepository_getOrCreateCart (user_id req) (cookies_guest_id req) db"

text \<open>\<^verbatim>\<open>updateCartItem\<close>: \<^verbatim>\<open>!quantity\<close> holds for a missing quantity and for 0.\<close>

definition CartController_updateCartItem :: "Request \<Rightarrow> Database \<Rightarrow> Cart Response \<times> Database" where
  "CartController_updateCartItem req db =
     (case body_quantity req of
        None \<Rightarrow> (reply 400 False None, db)
      | Some qty \<Rightarrow>
          if params_productId req = [] \<or> qty = 0 \<or> qty \<le> 0 then (reply 400 False None, db)
          else
     (case CartController_getOrCreateCart req (carts db) of
        (cart, carts1) \<Rightarrow>
     (case ProductRepository_findById (params_productId req) (products db) of
        None \<Rightarrow> (reply 404 False None, db\<lparr>carts := carts1\<rparr>)
      | Some product \<Rightarrow>
          if stock product < qty then (reply 400 False None, db\<lparr>carts := carts1\<rparr>)
          else
            (case CartRepository_updateItemQuantity (cart_id cart) (params_productId req) qty carts1 of
               (None, carts2) \<Rightarrow> (reply 404 False None, db\<lparr>carts := carts2\<rparr>)
             | (Some updatedCart, carts2) \<Rightarrow>
                 (reply 200 True (Some updatedCart), db\<lparr>carts := carts2\<rparr>)))))"

definition CartController_removeFromCart :: "Request \<Rightarrow> Database \<Rightarrow> Cart Response \<times> Database" where
  "CartController_removeFromCart req db =
     (if params_productId req = [] then (reply 400 False None, db)
      else
     (case CartController_getOrCreateCart req (carts db) of
        (cart, carts1) \<Rightarrow>
          (case CartRepository_removeItem (cart_id cart) (params_productId req) carts1 of
             (None, carts2) \<Rightarrow> (reply 404 False None, db\<lparr>carts := carts2\<rparr>)
           | (Some updatedCart, carts2) \<Rightarrow>
               (reply 200 True (Some updatedCart), db\<lparr>carts := carts2\<rparr>))))"

section \<open>Specification vocabulary\<close>

text \<open>The cached totals of a cart agree with its line items.\<close>

definition totalsConsistent :: "Cart \<Rightarrow> bool" where
  "totalsConsistent c \<longleftrightarrow>
     totalItems c = sum_list (map quantity (items c)) \<and>
     totalAmount c = sum_list (map (\<lambda>item. price item * quantity item) (items c))"

text \<open>The quantity a list of line items holds of one product, summed over its lines.\<close>

definition lineQuantity :: "string \<Rightarrow> CartItem list \<Rightarrow> number" where
  "lineQuantity pid xs = sum_list (map quantity (filter (\<lambda>item. productId item = pid) xs))"



section \<open>Example data\<close>

text \<open>
  The cart of the specification's example: A (quantity 2, price 10) and B (quantity 1,
  price 5), and the same cart once B is removed.
\<close>

definition itemA :: CartItem where
  "itemA = \<lparr>productId = ''A'', title = ''Product A'', price = 10, quantity = 2,
             thumbnail = ''a.png'', addedAt = 1\<rparr>"

definition itemB :: CartItem where
  "itemB = \<lparr>productId = ''B'', title = ''Product B'', price = 5, quantity = 1,
             thumbnail = ''b.png'', addedAt = 2\<rparr>"

definition cartAB :: Cart where
  "cartAB = \<lparr>cart_id = 1, userId = Some ''u1'', items = [itemA, itemB],
              totalAmount = 25, totalItems = 3, isActive = True\<rparr>"

definition cartA :: Cart where
  "cartA = \<lparr>cart_id = 1, userId = Some ''u1'', items = [itemA],
             totalAmount = 20, totalItems = 2, isActive = True\<rparr>"

text \<open>A catalog with both products, and a database holding the cart above.\<close>

definition productA :: Product where
  "productA = \<lparr>product_id = ''A'', title = ''Product A'', price = 10, stock = 5,
                thumbnail = ''a.png''\<rparr>"

definition productB :: Product where
  "productB = \<lparr>product_id = ''B'', title = ''Product B'', price = 5, stock = 0,
                thumbnail = ''b.png''\<rparr>"

definition shopDb :: Database where
  "shopDb = \<lparr>carts = [cartAB], products = [productA, productB], orders = [], tickets = [],
              refundsRequested = []\<rparr>"

text \<open>A request with nothing in it, to be filled in field by field.\<close>

definition emptyRequest :: Request where
  "emptyRequest =
     \<lparr>user_id = None, cookies_guest_id = None, headers_stripe_signature = None,
      params_productId = [], params_orderId = None, params_ticketId = [],
      body_quantity = None, body_shippingAddress = None, body_paymentMethod = None,
      body_successUrl = None, body_cancelUrl = None, body_status = None,
      body_message = None, body_attachments = None, body = None\<rparr>"

text \<open>User u1 sets the quantity of B to 0; user u1 removes Z, which is not in the cart.\<close>

definition setBToZero :: Request where
  "setBToZero = emptyRequest\<lparr>user_id := Some ''u1'', params_productId := ''B'',
                             body_quantity := Some 0\<rparr>"

definition removeZ :: Request where
  "removeZ = emptyRequest\<lparr>user_id := Some ''u1'', params_productId := ''Z''\<rparr>"

text \<open>The cart above after one more B has been added.\<close>

definition cartABB :: Cart where
  "cartABB = \<lparr>cart_id = 1, userId = Some ''u1'', items = [itemA, itemB\<lparr>quantity := 2\<rparr>],
               totalAmount = 30, totalItems = 4, isActive = True\<rparr>"



definition staleCart :: Cart where
  "staleCart = \<lparr>cart_id = 1, userId = Some ''u1'', items = [itemA, itemB],
                 totalAmount = 99, totalItems = 7, isActive = True\<rparr>"

definition staleDb :: Database where
  "staleDb = \<lparr>carts = [staleCart], products = [productA, productB], orders = [],
               tickets = [], refundsRequested = []\<rparr>"

text \<open>
  A guest cart with B (quantity 3) and C, stored next to the cart of u1; and the cart of u1
  after the guest cart has been merged into it.
\<close>

definition guestItemB :: CartItem where
  "guestItemB = \<lparr>productId = ''B'', title = ''Product B'', price = 5, quantity = 3,
                  thumbnail = ''b.png'', addedAt = 7\<rparr>"

definition itemC :: CartItem where
  "itemC = \<lparr>productId = ''C'', title = ''Product C'', price = 4, quantity = 1,
             thumbnail = ''c.png'', addedAt = 8\<rparr>"

definition guestCartBC :: Cart where
  "guestCartBC = \<lparr>cart_id = 2, userId = None, items = [guestItemB, itemC],
                   totalAmount = 19, totalItems = 4, isActive = True\<rparr>"

definition cartMerged :: Cart where
  "cartMerged = \<lparr>cart_id = 1, userId = Some ''u1'',
                  items = [itemA, itemB\<lparr>quantity := 4\<rparr>, itemC],
                  totalAmount = 44, totalItems = 7, isActive = True\<rparr>"

text \<open>
  A cash-on-delivery checkout by u1, a database in which u1's cart holds A alone, the order
  this checkout creates there, and a gateway on which every call fails.  Product B is out
  of stock.
\<close>

definition homeAddress :: ShippingAddress where
  "homeAddress = \<lparr>street = ''1 Main St'', city = ''Springfield'', state = ''IL'',
                   postalCode = ''62701'', country = ''US'', isDefault = True\<rparr>"

definition checkoutCOD :: Request where
  "checkoutCOD = emptyRequest\<lparr>user_id := Some ''u1'',
                              body_shippingAddress := Some homeAddress,
                              body_paymentMethod := Some ''COD''\<rparr>"

definition shopDbA :: Database where
  "shopDbA = \<lparr>carts = [cartA], products = [productA, productB], orders = [], tickets = [],
               refundsRequested = []\<rparr>"

definition orderA :: Order where
  "orderA = \<lparr>order_id = 1, userId = ''u1'',
              items = [\<lparr>OrderItem.productId = ''A'', title = ''Product A'', price = 10,
                        quantity = 2, thumbnail = ''a.png''\<rparr>],
              totalAmount = 20, totalItems = 2, shippingAddress = homeAddress,
              paymentMethod = ''COD'', paymentStatus = ''PENDING'', orderStatus = ''PENDING'',
              sessionId = None, transactionId = None, orderNumber = ''ORD1'',
              isActive = True\<rparr>"

definition noGateway :: StripeService where
  "noGateway = \<lparr>createCheckoutSession = (\<lambda>orderItems successUrl cancelUrl metadata. None),
                 retrieveCheckoutSession = (\<lambda>sid. None),
                 verifyWebhookSignature = (\<lambda>payload signature. None)\<rparr>"





text \<open>
  An order of u1 awaiting online payment, and a gateway that knows its checkout session
  \<open>cs_1\<close> as paid.  Three events of type checkout.session.completed: one in the layout the
  gateway itself sends (the event's own id at the top; the session id and the metadata
  that \<^verbatim>\<open>createOrder\<close> attached, with the order number ORD1, under \<^verbatim>\<open>data.object\<close>), one in the
  simplified layout the handler reads, whose payload claims \<open>unpaid\<close>, and one in that
  layout for an order number nobody has.
\<close>

definition pendingOrder :: Order where
  "pendingOrder = \<lparr>order_id = 1, userId = ''u1'',
                    items = [\<lparr>OrderItem.productId = ''A'', title = ''Product A'', price = 10,
                              quantity = 2, thumbnail = ''a.png''\<rparr>],
                    totalAmount = 20, totalItems = 2, shippingAddress = homeAddress,
                    paymentMethod = ''ONLINE'', paymentStatus = ''PENDING'',
                    orderStatus = ''PENDING'', sessionId = Some ''cs_1'',
                    transactionId = None, orderNumber = ''ORD1'', isActive = True\<rparr>"

definition pendingDb :: Database where
  "pendingDb = \<lparr>carts = [], products = [productA, productB], orders = [pendingOrder],
                 tickets = [], refundsRequested = []\<rparr>"

definition paidSession :: StripeSession where
  "paidSession = \<lparr>session_id = ''cs_1'', payment_status = ''paid'', url = None\<rparr>"

definition paidGateway :: StripeService where
  "paidGateway = \<lparr>createCheckoutSession = (\<lambda>orderItems successUrl cancelUrl metadata. None),
                   retrieveCheckoutSession =
                     (\<lambda>sid. if sid = ''cs_1'' then Some paidSession else None),
                   verifyWebhookSignature = (\<lambda>payload signature. None)\<rparr>"

definition gatewayEvent :: WebhookEvent where
  "gatewayEvent = \<lparr>event_type = Some ''checkout.session.completed'',
                    event_id = Some ''evt_1'', data_object_id = Some ''cs_1'',
                    orderNum = None, metadata_orderNum = None,
                    data_object_metadata_orderNumber = Some ''ORD1'',
                    data_object_payment_status = Some ''paid''\<rparr>"

definition simplifiedEvent :: WebhookEvent where
  "simplifiedEvent = \<lparr>event_type = Some ''checkout.session.completed'',
                       event_id = Some ''cs_1'', data_object_id = None,
                       orderNum = Some ''ORD1'', metadata_orderNum = None,
                       data_object_metadata_orderNumber = None,
                       data_object_payment_status = Some ''unpaid''\<rparr>"

definition unknownOrderEvent :: WebhookEvent where
  "unknownOrderEvent = \<lparr>event_type = Some ''checkout.session.completed'',
                         event_id = Some ''cs_1'', data_object_id = None,
                         orderNum = Some ''ORD9'', metadata_orderNum = None,
                         data_object_metadata_orderNumber = None,
                         data_object_payment_status = Some ''paid''\<rparr>"

definition gatewayWebhook :: Request where
  "gatewayWebhook = emptyRequest\<lparr>body := Some gatewayEvent\<rparr>"

definition unknownOrderWebhook :: Request where
  "unknownOrderWebhook = emptyRequest\<lparr>body := Some unknownOrderEvent\<rparr>"

text \<open>A ticket of u1 that waits for the customer, and the customer's reply.\<close>

definition waitingTicket :: ITicket where
  "waitingTicket =
     \<lparr>ticketId = ''TKT1'', user = ''u1'', subject = ''Late parcel'',
      status = WAITING_CUSTOMER,
      messages = [\<lparr>sender = ''admin1'', senderRole = ADMIN, message = ''Which order?'',
                   attachments = [], createdAt = 5\<rparr>],
      lastResponseAt = Some 5, isEscalated = False\<rparr>"

definition ticketDb :: Database where
  "ticketDb = \<lparr>carts = [], products = [], orders = [], tickets = [waitingTicket],
                refundsRequested = []\<rparr>"

definition customerReply :: Request where
  "customerReply = emptyRequest\<lparr>user_id := Some ''u1'', params_ticketId := ''TKT1'',
                                body_message := Some ''Order ORD1''\<rparr>"

definition repliedTicket :: ITicket where
  "repliedTicket =
     \<lparr>ticketId = ''TKT1'', user = ''u1'', subject = ''Late parcel'', status = OPEN,
      messages = [\<lparr>sender = ''admin1'', senderRole = ADMIN, message = ''Which order?'',
                   attachments = [], createdAt = 5\<rparr>,
                  \<lparr>sender = ''u1'', senderRole = USER, message = ''Order ORD1'',
                   attachments = [], createdAt = 9\<rparr>],
      lastResponseAt = Some 9, isEscalated = False\<rparr>"

section \<open>Lemmas on the collections and the totals\<close>

lemma foldl_plus_sum_list:
  "foldl (\<lambda>total item. total + f item) a xs = (a::rat) + sum_list (map f xs)"
  by (induction xs arbitrary: a) (simp_all add: add.assoc)

lemma totalsConsistent_recalculateTotals: "totalsConsistent (recalculateTotals c)"
  by (simp add: totalsConsistent_def recalculateTotals_def foldl_plus_sum_list)

lemma items_recalculateTotals: "items (recalculateTotals c) = items c"
  by (simp add: recalculateTotals_def)

lemma cart_id_recalculateTotals: "cart_id (recalculateTotals c) = cart_id c"
  by (simp add: recalculateTotals_def)

lemma recalculateTotals_consistent: "totalsConsistent c \<Longrightarrow> recalculateTotals c = c"
  by (simp add: totalsConsistent_def recalculateTotals_def foldl_plus_sum_list)

lemma findById_cart_id: "CartRepository_findById i db = Some c \<Longrightarrow> cart_id c = i"
  by (auto simp: CartRepository_findById_def find_Some_iff)

lemma findById_save:
  "CartRepository_findById i db = Some c \<Longrightarrow> cart_id c' = i \<Longrightarrow>
   CartRepository_findById i (CartRepository_save c' db) = Some c'"
  by (induction db) (auto simp: CartRepository_findById_def split: if_splits)

lemma findById_save_other:
  "cart_id c' \<noteq> i \<Longrightarrow>
   CartRepository_findById i (CartRepository_save c' db) = CartRepository_findById i db"
  by (induction db) (auto simp: CartRepository_findById_def split: if_splits)

lemma save_same:
  "CartRepository_findById i db = Some c \<Longrightarrow> CartRepository_save c db = db"
proof (induction db)
  case Nil
  then show ?case by simp
next
  case (Cons d ds)
  have "cart_id c = i" using Cons.prems by (rule findById_cart_id)
  with Cons show ?case
    by (auto simp: CartRepository_findById_def split: if_splits)
qed

section \<open>Lemmas on line items\<close>

lemma addOrIncrement_Nil: "addOrIncrement item [] = [item]"
  by (simp add: addOrIncrement_def)

lemma addOrIncrement_Cons:
  "addOrIncrement item (x # xs) =
     (if productId x = productId item then x\<lparr>quantity := quantity x + quantity item\<rparr> # xs
      else x # addOrIncrement item xs)"
  by (simp add: addOrIncrement_def split: option.splits)

lemma addOrIncrement_present:
  "productId item \<in> set (map productId xs) \<Longrightarrow>
   \<exists>i<length xs. productId (xs ! i) = productId item \<and>
     (\<forall>j<i. productId (xs ! j) \<noteq> productId item) \<and>
     addOrIncrement item xs = xs[i := (xs ! i)\<lparr>quantity := quantity (xs ! i) + quantity item\<rparr>]"
proof (induction xs)
  case Nil
  then show ?case by simp
next
  case (Cons x xs)
  show ?case
  proof (cases "productId x = productId item")
    case True
    then have "addOrIncrement item (x # xs) =
        (x # xs)[0 := ((x # xs) ! 0)\<lparr>quantity := quantity ((x # xs) ! 0) + quantity item\<rparr>]"
      by (simp add: addOrIncrement_Cons)
    with True show ?thesis by (intro exI [of _ 0]) simp
  next
    case False
    with Cons.prems have "productId item \<in> set (map productId xs)" by auto
    from Cons.IH [OF this] obtain i where i: "i < length xs" "productId (xs ! i) = productId item"
      "\<forall>j<i. productId (xs ! j) \<noteq> productId item"
      "addOrIncrement item xs = xs[i := (xs ! i)\<lparr>quantity := quantity (xs ! i) + quantity item\<rparr>]"
      by blast
    have "\<forall>j<Suc i. productId ((x # xs) ! j) \<noteq> productId item"
      using i(3) False by (auto simp: less_Suc_eq_0_disj)
    with i False show ?thesis
      by (intro exI [of _ "Suc i"]) (simp add: addOrIncrement_Cons)
  qed
qed

lemma map_productId_addOrIncrement_present:
  "productId item \<in> set (map productId xs) \<Longrightarrow>
   map productId (addOrIncrement item xs) = map productId xs"
  by (induction xs) (auto simp: addOrIncrement_Cons)

lemma lineQuantity_Nil: "lineQuantity pid [] = 0"
  by (simp add: lineQuantity_def)

lemma lineQuantity_Cons:
  "lineQuantity pid (x # xs) = (if productId x = pid then quantity x else 0) + lineQuantity pid xs"
  by (simp add: lineQuantity_def)

lemma lineQuantity_append:
  "lineQuantity pid (xs @ ys) = lineQuantity pid xs + lineQuantity pid ys"
  by (simp add: lineQuantity_def)

lemma lineQuantity_addOrIncrement:
  "lineQuantity pid (addOrIncrement item xs) =
     lineQuantity pid xs + (if productId item = pid then quantity item else 0)"
  by (induction xs) (auto simp: addOrIncrement_Cons addOrIncrement_Nil lineQuantity_Cons lineQuantity_Nil)

lemma findIndex_None_iff: "findIndex P xs = None \<longleftrightarrow> (\<forall>x\<in>set xs. \<not> P x)"
  by (induction xs) auto

lemma findIndex_Some_ex: "(\<exists>x\<in>set xs. P x) \<Longrightarrow> \<exists>i. findIndex P xs = Some i"
  using findIndex_None_iff [of P xs] by (cases "findIndex P xs") auto

lemma splice1_0: "splice1 0 (x # xs) = xs"
  by (simp add: splice1_def)

lemma splice1_Suc: "splice1 (Suc i) (x # xs) = x # splice1 i xs"
  by (simp add: splice1_def)

lemma splice1_findIndex:
  "findIndex P xs = Some i \<Longrightarrow>
   splice1 i xs = takeWhile (\<lambda>x. \<not> P x) xs @ tl (dropWhile (\<lambda>x. \<not> P x) xs)"
proof (induction xs arbitrary: i)
  case Nil
  then show ?case by simp
next
  case (Cons x xs)
  show ?case
  proof (cases "P x")
    case True
    with Cons.prems show ?thesis by (simp add: splice1_0)
  next
    case False
    with Cons.prems obtain j where j: "i = Suc j" "findIndex P xs = Some j" by auto
    with False Cons.IH [OF j(2)] show ?thesis by (simp add: splice1_Suc)
  qed
qed

lemma splice1_findIndex_length:
  "findIndex P xs = Some i \<Longrightarrow> Suc (length (splice1 i xs)) = length xs"
  by (induction xs arbitrary: i) (auto simp: splice1_0 splice1_Suc split: if_splits)

lemma splice1_findIndex_distinct:
  "findIndex (\<lambda>x. f x = k) xs = Some i \<Longrightarrow> distinct (map f xs) \<Longrightarrow>
   splice1 i xs = filter (\<lambda>x. f x \<noteq> k) xs"
proof (induction xs arbitrary: i)
  case Nil
  then show ?case by simp
next
  case (Cons x xs)
  show ?case
  proof (cases "f x = k")
    case True
    with Cons.prems(2) have "\<forall>y\<in>set xs. f y \<noteq> k" by (force simp: image_iff)
    then have "filter (\<lambda>x. f x \<noteq> k) xs = xs" by (simp add: filter_id_conv)
    with True Cons.prems show ?thesis by (simp add: splice1_0)
  next
    case False
    with Cons.prems obtain j where j: "i = Suc j" "findIndex (\<lambda>x. f x = k) xs = Some j" by auto
    from Cons.prems have "distinct (map f xs)" by simp
    with False Cons.IH [OF j(2)] j show ?thesis by (simp add: splice1_Suc)
  qed
qed

lemma updateItemQuantity_removes:
  assumes "CartRepository_findById cartId cs = Some cart"
    and "pid \<in> set (map productId (items cart))"
    and "qty \<le> 0"
  shows "\<exists>cart'. CartRepository_updateItemQuantity cartId pid qty cs = (Some cart', CartRepository_save cart' cs) \<and>
           items cart' = takeWhile (\<lambda>item. productId item \<noteq> pid) (items cart) @
                         tl (dropWhile (\<lambda>item. productId item \<noteq> pid) (items cart)) \<and>
           Suc (length (items cart')) = length (items cart) \<and>
           totalsConsistent cart' \<and>
           (distinct (map productId (items cart)) \<longrightarrow>
              items cart' = filter (\<lambda>item. productId item \<noteq> pid) (items cart))"
proof -
  from assms(2) have "\<exists>x\<in>set (items cart). productId x = pid" by auto
  from findIndex_Some_ex [of "items cart" "\<lambda>item. productId item = pid", OF this]
  obtain i where i: "findIndex (\<lambda>item. productId item = pid) (items cart) = Some i" by blast
  let ?cart' = "recalculateTotals (cart\<lparr>items := splice1 i (items cart)\<rparr>)"
  have run: "CartRepository_updateItemQuantity cartId pid qty cs = (Some ?cart', CartRepository_save ?cart' cs)"
    using assms(1,3) i by (simp add: CartRepository_updateItemQuantity_def Let_def)
  have its: "items ?cart' = splice1 i (items cart)" by (simp add: items_recalculateTotals)
  have a: "items ?cart' = takeWhile (\<lambda>item. productId item \<noteq> pid) (items cart) @
                         tl (dropWhile (\<lambda>item. productId item \<noteq> pid) (items cart))"
    using splice1_findIndex [OF i] its by simp
  have b: "Suc (length (items ?cart')) = length (items cart)"
    using splice1_findIndex_length [OF i] its by simp
  have c: "totalsConsistent ?cart'" by (rule totalsConsistent_recalculateTotals)
  have d: "distinct (map productId (items cart)) \<longrightarrow>
              items ?cart' = filter (\<lambda>item. productId item \<noteq> pid) (items cart)"
  proof
    assume "distinct (map productId (items cart))"
    then have "splice1 i (items cart) = filter (\<lambda>item. productId item \<noteq> pid) (items cart)"
      by (rule splice1_findIndex_distinct [OF i])
    with its show "items ?cart' = filter (\<lambda>item. productId item \<noteq> pid) (items cart)"
      by (rule trans)
  qed
  from run a b c d show ?thesis by blast
qed

lemma updateCartItem_rejects:
  "(case body_quantity req of None \<Rightarrow> True | Some q \<Rightarrow> q \<le> 0) \<Longrightarrow>
   CartController_updateCartItem req db = (reply 400 False None, db)"
  by (auto simp: CartController_updateCartItem_def split: option.splits)

lemma fold_max_ge: "a \<le> fold max xs (a::nat) \<and> (\<forall>x\<in>set xs. x \<le> fold max xs a)"
proof (induction xs arbitrary: a)
  case Nil
  then show ?case by simp
next
  case (Cons x xs)
  from Cons.IH [of "max x a"] show ?case by auto
qed

lemma freshId_fresh: "x \<in> set ids \<Longrightarrow> x < freshId ids"
  using fold_max_ge [of 0 ids] by (auto simp: freshId_def)

lemma findById_append_fresh:
  "\<forall>d\<in>set db. cart_id d \<noteq> cart_id c \<Longrightarrow> CartRepository_findById (cart_id c) (db @ [c]) = Some c"
  by (induction db) (auto simp: CartRepository_findById_def)

lemma find_distinct_findById:
  "find P db = Some c \<Longrightarrow> distinct (map cart_id db) \<Longrightarrow>
   CartRepository_findById (cart_id c) db = Some c"
proof (induction db)
  case Nil
  then show ?case by simp
next
  case (Cons d ds)
  show ?case
  proof (cases "P d")
    case True
    with Cons.prems show ?thesis by (simp add: CartRepository_findById_def)
  next
    case False
    with Cons.prems have f: "find P ds = Some c" by simp
    then have "c \<in> set ds" by (auto simp: find_Some_iff)
    with Cons.prems have "cart_id d \<noteq> cart_id c" by auto
    with Cons.IH [OF f] Cons.prems show ?thesis by (simp add: CartRepository_findById_def)
  qed
qed

lemma getOrCreateCart_stored:
  assumes "CartRepository_getOrCreateCart uid guestId db = (cart, db')"
    and "distinct (map cart_id db)"
  shows "CartRepository_findById (cart_id cart) db' = Some cart"
proof (cases "\<exists>c. (case (if truthy uid then uid else None) of
                    Some u \<Rightarrow> CartRepository_findByUserId u db
                  | None \<Rightarrow> (case guestId of
                               Some g \<Rightarrow> CartRepository_findById g db
                             | None \<Rightarrow> None)) = Some c")
  case True
  then obtain c where c: "(case (if truthy uid then uid else None) of
                    Some u \<Rightarrow> CartRepository_findByUserId u db
                  | None \<Rightarrow> (case guestId of
                               Some g \<Rightarrow> CartRepository_findById g db
                             | None \<Rightarrow> None)) = Some c" by blast
  with assms(1) have eq: "cart = c" "db' = db"
    by (simp_all add: CartRepository_getOrCreateCart_def Let_def)
  from c have "\<exists>P. find P db = Some c"
    by (auto simp: CartRepository_findByUserId_def CartRepository_findById_def split: option.splits if_splits)
  then obtain P where "find P db = Some c" by blast
  from find_distinct_findById [OF this assms(2)] eq show ?thesis by simp
next
  case False
  then have n: "(case (if truthy uid then uid else None) of
                    Some u \<Rightarrow> CartRepository_findByUserId u db
                  | None \<Rightarrow> (case guestId of
                               Some g \<Rightarrow> CartRepository_findById g db
                             | None \<Rightarrow> None)) = None" by auto
  with assms(1) have eq: "CartRepository_create (if truthy uid then uid else None) db = (cart, db')"
    by (simp add: CartRepository_getOrCreateCart_def Let_def)
  then have id: "cart_id cart = freshId (map cart_id db)" and db': "db' = db @ [cart]"
    by (auto simp: CartRepository_create_def Let_def)
  have "\<forall>d\<in>set db. cart_id d \<noteq> cart_id cart"
    using freshId_fresh [of _ "map cart_id db"] id by fastforce
  from findById_append_fresh [OF this] db' show ?thesis by simp
qed

lemma removeItem_absent:
  assumes "CartRepository_findById cartId cs = Some cart"
    and "pid \<notin> set (map productId (items cart))"
    and "totalsConsistent cart"
  shows "CartRepository_removeItem cartId pid cs = (Some cart, cs)"
proof -
  from assms(2) have "filter (\<lambda>item. productId item \<noteq> pid) (items cart) = items cart"
    by (auto simp: filter_id_conv)
  with assms(1,3) show ?thesis
    by (simp add: CartRepository_removeItem_def Let_def recalculateTotals_consistent save_same)
qed

section \<open>Lemmas on merging carts\<close>

lemma map_productId_addOrIncrement:
  "map productId (addOrIncrement item xs) =
     (if productId item \<in> set (map productId xs) then map productId xs
      else map productId xs @ [productId item])"
  by (induction xs) (auto simp: addOrIncrement_Cons addOrIncrement_Nil)

lemma lineQuantity_mergeItems:
  "lineQuantity pid (mergeItems guestItems userItems) =
     lineQuantity pid userItems + lineQuantity pid guestItems"
  by (induction guestItems arbitrary: userItems)
     (auto simp: lineQuantity_addOrIncrement lineQuantity_Cons lineQuantity_Nil)

lemma set_productId_addOrIncrement:
  "productId ` set (addOrIncrement item xs) = insert (productId item) (productId ` set xs)"
  by (induction xs) (auto simp: addOrIncrement_Cons addOrIncrement_Nil)

lemma set_productId_mergeItems:
  "productId ` set (mergeItems guestItems userItems) =
     productId ` set userItems \<union> productId ` set guestItems"
  by (induction guestItems arbitrary: userItems)
     (auto simp: set_productId_addOrIncrement)

lemma distinct_productId_mergeItems:
  "distinct (map productId userItems) \<Longrightarrow>
   distinct (map productId (mergeItems guestItems userItems))"
  by (induction guestItems arbitrary: userItems)
     (auto simp: map_productId_addOrIncrement)

lemma findById_save_Some:
  "CartRepository_findById i db = Some c \<Longrightarrow>
   \<exists>c'. CartRepository_findById i (CartRepository_save x db) = Some c'"
  by (induction db) (auto simp: CartRepository_findById_def split: if_splits)

lemma findByUserId_member:
  "CartRepository_findByUserId u db = Some c \<Longrightarrow> c \<in> set db"
  by (auto simp: CartRepository_findByUserId_def find_Some_iff)

lemma member_findById:
  "c \<in> set db \<Longrightarrow> \<exists>c'. CartRepository_findById (cart_id c) db = Some c'"
  by (induction db) (auto simp: CartRepository_findById_def)

lemma deactivateCart_stored:
  "CartRepository_findById i db = Some c \<Longrightarrow>
   CartRepository_findById i (snd (CartRepository_deactivateCart i db)) = Some (c\<lparr>isActive := False\<rparr>)"
  by (simp add: CartRepository_deactivateCart_def CartRepository_findByIdAndUpdate_def
      findById_save findById_cart_id)

lemma deactivateCart_other:
  "j \<noteq> i \<Longrightarrow>
   CartRepository_findById j (snd (CartRepository_deactivateCart i db)) = CartRepository_findById j db"
  by (auto simp: CartRepository_deactivateCart_def CartRepository_findByIdAndUpdate_def
      findById_save_other findById_cart_id split: option.splits)

lemma findByUserId_save_new:
  assumes "CartRepository_findByUserId u db = None"
    and "CartRepository_findById i db = Some c"
    and "cart_id c' = i" and "userId c' = Some u" and "isActive c'"
  shows "CartRepository_findByUserId u (CartRepository_save c' db) = Some c'"
  using assms
  by (induction db) (auto simp: CartRepository_findByUserId_def CartRepository_findById_def split: if_splits)

lemma mergeGuestCart_into_user_cart:
  assumes g: "CartRepository_findById guestCartId db = Some guestCart"
    and u: "CartRepository_findByUserId uid db = Some userCart"
  shows "\<exists>merged db'.
           CartRepository_mergeGuestCart guestCartId uid db = (Some merged, db') \<and>
           merged = recalculateTotals (userCart\<lparr>items := mergeItems (items guestCart) (items userCart)\<rparr>) \<and>
           set (map productId (items merged)) =
             set (map productId (items userCart)) \<union> set (map productId (items guestCart)) \<and>
           (\<forall>pid. lineQuantity pid (items merged) =
                    lineQuantity pid (items userCart) + lineQuantity pid (items guestCart)) \<and>
           (distinct (map productId (items userCart)) \<longrightarrow> distinct (map productId (items merged))) \<and>
           totalsConsistent merged \<and>
           (\<exists>stored. CartRepository_findById guestCartId db' = Some stored \<and> \<not> isActive stored) \<and>
           (guestCartId \<noteq> cart_id userCart \<longrightarrow>
              CartRepository_findById (cart_id userCart) db' = Some merged \<and>
              CartRepository_findById guestCartId db' = Some (guestCart\<lparr>isActive := False\<rparr>))"
proof -
  let ?merged = "recalculateTotals (userCart\<lparr>items := mergeItems (items guestCart) (items userCart)\<rparr>)"
  let ?db1 = "CartRepository_save ?merged db"
  let ?db' = "snd (CartRepository_deactivateCart guestCartId ?db1)"
  have run: "CartRepository_mergeGuestCart guestCartId uid db = (Some ?merged, ?db')"
    using g u by (simp add: CartRepository_mergeGuestCart_def Let_def)
  have its: "items ?merged = mergeItems (items guestCart) (items userCart)"
    by (simp add: items_recalculateTotals)
  have id: "cart_id ?merged = cart_id userCart"
    by (simp add: cart_id_recalculateTotals)
  from findById_save_Some [OF g] obtain g1 where g1: "CartRepository_findById guestCartId ?db1 = Some g1"
    by blast
  have stored: "CartRepository_findById guestCartId ?db' = Some (g1\<lparr>isActive := False\<rparr>)"
    by (rule deactivateCart_stored [OF g1])
  have other: "guestCartId \<noteq> cart_id userCart \<longrightarrow>
      CartRepository_findById (cart_id userCart) ?db' = Some ?merged \<and>
      CartRepository_findById guestCartId ?db' = Some (guestCart\<lparr>isActive := False\<rparr>)"
  proof
    assume ne: "guestCartId \<noteq> cart_id userCart"
    from member_findById [OF findByUserId_member [OF u]] obtain c0 where
      "CartRepository_findById (cart_id userCart) db = Some c0" by blast
    from findById_save [OF this id] have "CartRepository_findById (cart_id userCart) ?db1 = Some ?merged" .
    with ne have a: "CartRepository_findById (cart_id userCart) ?db' = Some ?merged"
      by (simp add: deactivateCart_other)
    have "CartRepository_findById guestCartId ?db1 = Some guestCart"
      using ne g id by (simp add: findById_save_other)
    from deactivateCart_stored [OF this] a
    show "CartRepository_findById (cart_id userCart) ?db' = Some ?merged \<and>
      CartRepository_findById guestCartId ?db' = Some (guestCart\<lparr>isActive := False\<rparr>)" by simp
  qed
  have "\<exists>stored. CartRepository_findById guestCartId ?db' = Some stored \<and> \<not> isActive stored"
    using stored by simp
  with run its other show ?thesis
    by (simp add: set_productId_mergeItems lineQuantity_mergeItems distinct_productId_mergeItems
        totalsConsistent_recalculateTotals)
qed

lemma mergeGuestCart_rekey:
  assumes g: "CartRepository_findById guestCartId db = Some guestCart"
    and u: "CartRepository_findByUserId uid db = None"
  shows "CartRepository_mergeGuestCart guestCartId uid db =
           (Some (guestCart\<lparr>userId := Some uid\<rparr>),
            CartRepository_save (guestCart\<lparr>userId := Some uid\<rparr>) db) \<and>
         CartRepository_findById guestCartId (CartRepository_save (guestCart\<lparr>userId := Some uid\<rparr>) db)
           = Some (guestCart\<lparr>userId := Some uid\<rparr>) \<and>
         (isActive guestCart \<longrightarrow>
            CartRepository_findByUserId uid (CartRepository_save (guestCart\<lparr>userId := Some uid\<rparr>) db)
              = Some (guestCart\<lparr>userId := Some uid\<rparr>))"
proof -
  have id: "cart_id (guestCart\<lparr>userId := Some uid\<rparr>) = guestCartId"
    using findById_cart_id [OF g] by simp
  have run: "CartRepository_mergeGuestCart guestCartId uid db =
           (Some (guestCart\<lparr>userId := Some uid\<rparr>),
            CartRepository_save (guestCart\<lparr>userId := Some uid\<rparr>) db)"
    using g u by (simp add: CartRepository_mergeGuestCart_def CartRepository_findByIdAndUpdate_def)
  have st: "CartRepository_findById guestCartId (CartRepository_save (guestCart\<lparr>userId := Some uid\<rparr>) db)
           = Some (guestCart\<lparr>userId := Some uid\<rparr>)"
    by (rule findById_save [OF g id])
  have act: "isActive guestCart \<longrightarrow>
            CartRepository_findByUserId uid (CartRepository_save (guestCart\<lparr>userId := Some uid\<rparr>) db)
              = Some (guestCart\<lparr>userId := Some uid\<rparr>)"
    using findByUserId_save_new [OF u g id] by simp
  from run st act show ?thesis by simp
qed

section \<open>Lemmas on checkout and on the order collection\<close>

lemma validateCartItems_Inr_iff:
  "(\<exists>r. validateCartItems ps its acc = Inr r) \<longleftrightarrow>
   (\<forall>line\<in>set its. \<exists>product. ProductRepository_findById (productId line) ps = Some product \<and>
        quantity line \<le> stock product)"
proof (induction its arbitrary: acc)
  case Nil
  show ?case by (simp del: split_paired_Ex)
next
  case (Cons line rest acc)
  obtain orderItems amount count where acc: "acc = (orderItems, amount, count)"
    by (metis prod_cases3)
  show ?case
  proof (cases "ProductRepository_findById (productId line) ps")
    case None
    with acc show ?thesis by simp
  next
    case (Some product)
    show ?thesis
    proof (cases "stock product < quantity line")
      case True
      with Some acc show ?thesis by auto
    next
      case False
      with Some acc Cons.IH show ?thesis by (simp add: not_less)
    qed
  qed
qed

lemma validateCartItems_fails:
  assumes "\<exists>line\<in>set its. (case ProductRepository_findById (productId line) ps of
                               None \<Rightarrow> True | Some product \<Rightarrow> stock product < quantity line)"
  shows "\<exists>failure. validateCartItems ps its acc = Inl failure"
proof -
  from assms obtain line where l: "line \<in> set its"
    "case ProductRepository_findById (productId line) ps of
       None \<Rightarrow> True | Some product \<Rightarrow> stock product < quantity line"
    by blast
  from l(2) have "\<not> (\<exists>product. ProductRepository_findById (productId line) ps = Some product \<and>
      quantity line \<le> stock product)"
    by (auto split: option.splits)
  with l(1) have "\<not> (\<forall>line\<in>set its. \<exists>product.
      ProductRepository_findById (productId line) ps = Some product \<and> quantity line \<le> stock product)"
    by blast
  then have "\<not> (\<exists>r. validateCartItems ps its acc = Inr r)"
    using validateCartItems_Inr_iff [of ps its acc] by blast
  then show ?thesis by (cases "validateCartItems ps its acc") auto
qed

lemma nonEmpty_Some: "s \<noteq> [] \<Longrightarrow> nonEmpty (Some s) = Some s"
  by (simp add: nonEmpty_def truthy_def)

lemma createOrder_rejects:
  assumes "user_id req = Some uid" and "uid \<noteq> []"
    and "CartRepository_findByUserId uid (carts db) = Some cart"
    and "validateCartItems (products db) (items cart) ([], 0, 0) = Inl failure"
  shows "OrderController_createOrder gw generated req db = (reply 400 False None, db)"
  using assms
  by (simp add: OrderController_createOrder_def nonEmpty_Some split: option.splits)

lemma OrderRepository_findById_order_id:
  "OrderRepository_findById i db = Some ord \<Longrightarrow> order_id ord = i"
  by (auto simp: OrderRepository_findById_def find_Some_iff)

lemma OrderRepository_findById_replace:
  "OrderRepository_findById i db = Some ord \<Longrightarrow> order_id ord' = i \<Longrightarrow>
   OrderRepository_findById i (OrderRepository_replace ord' db) = Some ord'"
  by (induction db) (auto simp: OrderRepository_findById_def split: if_splits)

lemma OrderRepository_findByIdAndUpdate_found:
  assumes "OrderRepository_findById i db = Some ord" and "order_id (upd ord) = order_id ord"
  shows "OrderRepository_findByIdAndUpdate i upd db = (Some (upd ord), OrderRepository_replace (upd ord) db) \<and>
         OrderRepository_findById i (OrderRepository_replace (upd ord) db) = Some (upd ord)"
  using assms OrderRepository_findById_replace [of i db ord "upd ord"]
    OrderRepository_findById_order_id [of i db ord]
  by (simp add: OrderRepository_findByIdAndUpdate_def)




section \<open>Lemmas on the webhook handler and on tickets\<close>

lemma find_distinct_OrderRepository_findById:
  "find P db = Some ord \<Longrightarrow> distinct (map order_id db) \<Longrightarrow>
   OrderRepository_findById (order_id ord) db = Some ord"
proof (induction db)
  case Nil
  then show ?case by simp
next
  case (Cons d ds)
  show ?case
  proof (cases "P d")
    case True
    with Cons.prems show ?thesis by (simp add: OrderRepository_findById_def)
  next
    case False
    with Cons.prems have f: "find P ds = Some ord" by simp
    then have "ord \<in> set ds" by (auto simp: find_Some_iff)
    with Cons.prems have "order_id d \<noteq> order_id ord" by auto
    with Cons.IH [OF f] Cons.prems show ?thesis by (simp add: OrderRepository_findById_def)
  qed
qed

lemma nonEmpty_eq_Some: "nonEmpty v = Some s \<Longrightarrow> v = Some s \<and> s \<noteq> []"
  by (auto simp: nonEmpty_def truthy_def split: if_splits option.splits)

lemma handleCheckoutSessionCompleted_ignores_payload_status:
  "StripeWebhookController_handleCheckoutSessionCompleted gw
     (session\<lparr>data_object_payment_status := x\<rparr>) db =
   StripeWebhookController_handleCheckoutSessionCompleted gw session db"
  by (simp add: StripeWebhookController_handleCheckoutSessionCompleted_def)

lemma handleCheckoutSessionCompleted_updates:
  assumes sid: "nonEmpty (orElse (event_id session) (data_object_id session)) = Some sid"
    and num: "nonEmpty (orElse (orderNum session) (metadata_orderNum session)) = Some num"
    and ret: "retrieveCheckoutSession gw sid = Some stripeSession"
    and ord: "OrderRepository_findByOrderNumber num db = Some order"
    and dist: "distinct (map order_id db)"
  shows "\<exists>result db'.
           StripeWebhookController_handleCheckoutSessionCompleted gw session db = (result, db') \<and>
           processed result \<and>
           OrderRepository_findById (order_id order) db' =
             Some (order\<lparr>paymentStatus := (if payment_status stripeSession = ''paid''
                                             then ''PAID'' else ''PENDING''),
                         transactionId := Some sid\<rparr>)"
proof -
  let ?st = "if payment_status stripeSession = ''paid'' then ''PAID'' else ''PENDING''"
  let ?upd = "\<lambda>ord. if truthy (Some sid) then ord\<lparr>paymentStatus := ?st, transactionId := Some sid\<rparr>
               else ord\<lparr>paymentStatus := ?st\<rparr>"
  from sid have t: "truthy (Some sid)"
    using nonEmpty_eq_Some [OF sid] by (simp add: truthy_def)
  from ord have "OrderRepository_findById (order_id order) db = Some order"
    unfolding OrderRepository_findByOrderNumber_def
    by (rule find_distinct_OrderRepository_findById [OF _ dist])
  from OrderRepository_findByIdAndUpdate_found [of "order_id order" db order ?upd, OF this] t
  have u: "OrderRepository_updatePaymentStatus (order_id order) ?st (Some sid) db =
      (Some (order\<lparr>paymentStatus := ?st, transactionId := Some sid\<rparr>),
       OrderRepository_replace (order\<lparr>paymentStatus := ?st, transactionId := Some sid\<rparr>) db)"
    and f: "OrderRepository_findById (order_id order)
       (OrderRepository_replace (order\<lparr>paymentStatus := ?st, transactionId := Some sid\<rparr>) db) =
       Some (order\<lparr>paymentStatus := ?st, transactionId := Some sid\<rparr>)"
    by (simp_all add: OrderRepository_updatePaymentStatus_def)
  from sid num ret ord u f show ?thesis
    by (simp add: StripeWebhookController_handleCheckoutSessionCompleted_def Let_def)
qed

lemma handleCheckoutSessionCompleted_not_found:
  assumes "\<forall>num. nonEmpty (orElse (orderNum session) (metadata_orderNum session)) = Some num \<longrightarrow>
            OrderRepository_findByOrderNumber num db = None"
  shows "\<exists>result.
           StripeWebhookController_handleCheckoutSessionCompleted gw session db = (result, db) \<and>
           \<not> processed result \<and> message result \<noteq> [] \<and>
           (\<forall>sid num stripeSession.
              nonEmpty (orElse (event_id session) (data_object_id session)) = Some sid \<and>
              nonEmpty (orElse (orderNum session) (metadata_orderNum session)) = Some num \<and>
              retrieveCheckoutSession gw sid = Some stripeSession \<longrightarrow>
                message result = ''Order not found: '' @ num)"
  using assms
  by (auto simp: StripeWebhookController_handleCheckoutSessionCompleted_def split: option.splits)

lemma handleWebhook_reply:
  assumes "StripeWebhookController_receiveEvent gw req = Some event"
    and "event_type event = Some ''checkout.session.completed''"
    and "StripeWebhookController_handleCheckoutSessionCompleted gw event (orders db) = (result, orders db)"
  shows "StripeWebhookController_handleWebhook gw req db = (reply 200 True (Some (message result)), db)"
  using assms
  by (simp add: StripeWebhookController_handleWebhook_def StripeWebhookController_processWebhookEvent_def)

lemma TicketRepository_findOneAndUpdate_found:
  assumes "TicketRepository_findByTicketId tid db = Some t"
    and "ticketId (upd t) = ticketId t"
  shows "\<exists>db'. TicketRepository_findOneAndUpdate tid upd db = (Some (upd t), db') \<and>
               TicketRepository_findByTicketId tid db' = Some (upd t) \<and>
               length db' = length db"
  using assms
proof (induction db)
  case Nil
  then show ?case by (simp add: TicketRepository_findByTicketId_def)
next
  case (Cons d ds)
  show ?case
  proof (cases "ticketId d = tid")
    case True
    with Cons.prems show ?thesis
      by (simp add: TicketRepository_findByTicketId_def)
  next
    case False
    with Cons.prems have "TicketRepository_findByTicketId tid ds = Some t"
      by (simp add: TicketRepository_findByTicketId_def)
    from Cons.IH [OF this Cons.prems(2)] obtain ds' where
      "TicketRepository_findOneAndUpdate tid upd ds = (Some (upd t), ds')"
      "TicketRepository_findByTicketId tid ds' = Some (upd t)" "length ds' = length ds"
      by blast
    with False show ?thesis
      by (simp add: TicketRepository_findByTicketId_def)
  qed
qed

section \<open>Lemmas on the mutations of a cart\<close>



lemma recalculateTotals_eq:
  "recalculateTotals c =
     c\<lparr>totalItems := sum_list (map quantity (items c)),
       totalAmount := sum_list (map (\<lambda>item. price item * quantity item) (items c))\<rparr>"
  by (simp add: recalculateTotals_def foldl_plus_sum_list)

lemma removeItem_absent_recalculates:
  assumes "CartRepository_findById cartId cs = Some cart"
    and "pid \<notin> set (map productId (items cart))"
  shows "CartRepository_removeItem cartId pid cs =
           (Some (recalculateTotals cart), CartRepository_save (recalculateTotals cart) cs)"
proof -
  from assms(2) have "filter (\<lambda>item. productId item \<noteq> pid) (items cart) = items cart"
    by (auto simp: filter_id_conv)
  with assms(1) show ?thesis
    by (simp add: CartRepository_removeItem_def Let_def)
qed

lemma recalculateTotals_fixed: "recalculateTotals c = c \<longleftrightarrow> totalsConsistent c"
proof
  assume "recalculateTotals c = c"
  with totalsConsistent_recalculateTotals [of c] show "totalsConsistent c" by simp
next
  assume "totalsConsistent c"
  then show "recalculateTotals c = c" by (rule recalculateTotals_consistent)
qed

section \<open>Cart totals\<close>



section \<open>Adding a product that is already in the cart\<close>

text \<open>
  Claim C8.  When \<open>addItem\<close> is called on a stored cart for a product that already has a
  line, it returns the cart in which that line (the first one of the product, at index \<open>i\<close>)
  has its quantity raised by the added quantity and nothing else is changed: the number
  of lines and their product ids are the same, so no second line for the product appears.
\<close>

theorem addItem_existing_product:
  assumes "CartRepository_findById cartId db = Some cart"
    and "productId item \<in> set (map productId (items cart))"
  shows "\<exists>cart' i.
           CartRepository_addItem cartId item db = (Some cart', CartRepository_save cart' db) \<and>
           i < length (items cart) \<and> productId (items cart ! i) = productId item \<and>
           items cart' =
             (items cart)[i := (items cart ! i)
                \<lparr>quantity := quantity (items cart ! i) + quantity item\<rparr>] \<and>
           length (items cart') = length (items cart) \<and>
           map productId (items cart') = map productId (items cart) \<and>
           lineQuantity (productId item) (items cart') =
             lineQuantity (productId item) (items cart) + quantity item"
proof -
  from addOrIncrement_present [OF assms(2)] obtain i where
    i: "i < length (items cart)" "productId (items cart ! i) = productId item"
       "addOrIncrement item (items cart) =
          (items cart)[i := (items cart ! i)
             \<lparr>quantity := quantity (items cart ! i) + quantity item\<rparr>]"
    by blast
  let ?cart' = "recalculateTotals (cart\<lparr>items := addOrIncrement item (items cart)\<rparr>)"
  have run: "CartRepository_addItem cartId item db = (Some ?cart', CartRepository_save ?cart' db)"
    using assms(1) by (simp add: CartRepository_addItem_def Let_def)
  have its: "items ?cart' = addOrIncrement item (items cart)"
    by (simp add: recalculateTotals_def)
  have len: "length (items ?cart') = length (items cart)"
    using i(3) its by simp
  have pids: "map productId (items ?cart') = map productId (items cart)"
    using its map_productId_addOrIncrement_present [OF assms(2)] by simp
  have qty: "lineQuantity (productId item) (items ?cart') =
      lineQuantity (productId item) (items cart) + quantity item"
    using its by (simp add: lineQuantity_addOrIncrement)
  from run i its len pids qty show ?thesis by metis
qed

text \<open>One more B into the cart with A and B: still two lines, B now with quantity 2.\<close>

theorem addItem_existing_product_witness:
  "CartRepository_findById 1 [cartAB] = Some cartAB \<and>
   productId itemB \<in> set (map productId (items cartAB)) \<and>
   CartRepository_addItem 1 itemB [cartAB] = (Some cartABB, [cartABB]) \<and>
   (\<exists>cart' i.
      CartRepository_addItem 1 itemB [cartAB] = (Some cart', CartRepository_save cart' [cartAB]) \<and>
      i < length (items cartAB) \<and> productId (items cartAB ! i) = productId itemB \<and>
      items cart' =
        (items cartAB)[i := (items cartAB ! i)
           \<lparr>quantity := quantity (items cartAB ! i) + quantity itemB\<rparr>] \<and>
      length (items cart') = length (items cartAB) \<and>
      map productId (items cart') = map productId (items cartAB) \<and>
      lineQuantity (productId itemB) (items cart') =
        lineQuantity (productId itemB) (items cartAB) + quantity itemB)"
proof -
  have stored: "CartRepository_findById 1 [cartAB] = Some cartAB"
    by (simp add: CartRepository_findById_def cartAB_def)
  have present: "productId itemB \<in> set (map productId (items cartAB))"
    by (simp add: cartAB_def)
  have run: "CartRepository_addItem 1 itemB [cartAB] = (Some cartABB, [cartABB])"
    by (simp add: CartRepository_addItem_def CartRepository_findById_def cartAB_def cartABB_def
        itemA_def itemB_def addOrIncrement_def recalculateTotals_def Let_def)
  from stored present run addItem_existing_product [OF stored present] show ?thesis
    by blast
qed

section \<open>Setting a quantity to zero or less\<close>

text \<open>
  Claim C7, as stated, fails at the public interface: a request that sets the quantity of B
  to 0 is answered with 400 and the database is left as it was, the line for B still in the
  user's cart.
\<close>

theorem updateCartItem_zero_keeps_line:
  "CartController_updateCartItem setBToZero shopDb = (reply 400 False None, shopDb) \<and>
   CartRepository_findByUserId ''u1'' (carts shopDb) = Some cartAB \<and>
   ''B'' \<in> set (map productId (items cartAB))"
  by (simp add: CartController_updateCartItem_def setBToZero_def emptyRequest_def shopDb_def
      CartRepository_findByUserId_def cartAB_def itemA_def itemB_def)

text \<open>
  Claim C7, amended.  The repository operation \<open>updateItemQuantity\<close>, called with a quantity
  of 0 or less on a stored cart that has a line for the product, returns the cart without the
  first line of that product (one line fewer; when the product ids of the lines are distinct,
  exactly the lines of the other products remain) and with the totals recomputed.  The
  controller \<open>updateCartItem\<close> never makes such a call: a request whose quantity is missing, 0
  or negative is answered with 400 and changes nothing.
\<close>

theorem updateItemQuantity_nonpositive:
  "(CartRepository_findById cartId cs = Some cart \<and>
    pid \<in> set (map productId (items cart)) \<and> qty \<le> 0 \<longrightarrow>
      (\<exists>cart'.
         CartRepository_updateItemQuantity cartId pid qty cs
           = (Some cart', CartRepository_save cart' cs) \<and>
         items cart' = takeWhile (\<lambda>item. productId item \<noteq> pid) (items cart) @
                       tl (dropWhile (\<lambda>item. productId item \<noteq> pid) (items cart)) \<and>
         Suc (length (items cart')) = length (items cart) \<and>
         totalsConsistent cart' \<and>
         (distinct (map productId (items cart)) \<longrightarrow>
            items cart' = filter (\<lambda>item. productId item \<noteq> pid) (items cart)))) \<and>
   ((case body_quantity req of None \<Rightarrow> True | Some q \<Rightarrow> q \<le> 0) \<longrightarrow>
      CartController_updateCartItem req db = (reply 400 False None, db))"
  using updateItemQuantity_removes [of cartId cs cart pid qty] updateCartItem_rejects [of req db]
  by blast

text \<open>
  Setting B to 0 through the repository leaves the cart with A alone; the same through the
  controller is refused.
\<close>

theorem updateItemQuantity_nonpositive_witness:
  "CartRepository_findById 1 [cartAB] = Some cartAB \<and>
   ''B'' \<in> set (map productId (items cartAB)) \<and> (0::rat) \<le> 0 \<and>
   distinct (map productId (items cartAB)) \<and>
   (case body_quantity setBToZero of None \<Rightarrow> True | Some q \<Rightarrow> q \<le> 0) \<and>
   CartRepository_updateItemQuantity 1 ''B'' 0 [cartAB] = (Some cartA, [cartA]) \<and>
   items cartA = filter (\<lambda>item. productId item \<noteq> ''B'') (items cartAB) \<and>
   totalsConsistent cartA \<and>
   CartController_updateCartItem setBToZero shopDb = (reply 400 False None, shopDb)"
proof -
  have stored: "CartRepository_findById 1 [cartAB] = Some cartAB"
    by (simp add: CartRepository_findById_def cartAB_def)
  have present: "''B'' \<in> set (map productId (items cartAB))"
    by (simp add: cartAB_def itemA_def itemB_def)
  have dist: "distinct (map productId (items cartAB))"
    by (simp add: cartAB_def itemA_def itemB_def)
  have zero: "(case body_quantity setBToZero of None \<Rightarrow> True | Some q \<Rightarrow> q \<le> 0)"
    by (simp add: setBToZero_def emptyRequest_def)
  have run: "CartRepository_updateItemQuantity 1 ''B'' 0 [cartAB] = (Some cartA, [cartA])"
    by (simp add: CartRepository_updateItemQuantity_def CartRepository_findById_def cartAB_def
        cartA_def itemA_def itemB_def splice1_def recalculateTotals_def Let_def)
  from updateItemQuantity_nonpositive
         [where cartId = 1 and cs = "[cartAB]" and cart = cartAB and pid = "''B''" and qty = 0
            and req = setBToZero and db = shopDb]
       stored present dist zero run
  show ?thesis by auto
qed

section \<open>Removing a product that is not in the cart\<close>

text \<open>
  Claim C10, as stated for every cart, fails on a cart whose cached totals do not agree with
  its lines: removing Z, which is not in the cart, is answered with 200 and leaves the lines
  alone, but the totals 7 and 99 are rewritten to 3 and 25.
\<close>

theorem removeFromCart_rewrites_stale_totals:
  "params_productId removeZ \<noteq> [] \<and>
   CartController_getOrCreateCart removeZ (carts staleDb) = (staleCart, carts staleDb) \<and>
   params_productId removeZ \<notin> set (map productId (items staleCart)) \<and>
   totalItems staleCart = 7 \<and> totalAmount staleCart = 99 \<and>
   CartController_removeFromCart removeZ staleDb
     = (reply 200 True (Some cartAB), staleDb\<lparr>carts := [cartAB]\<rparr>) \<and>
   items cartAB = items staleCart \<and>
   totalItems cartAB = 3 \<and> totalAmount cartAB = 25"
  by (simp add: CartController_removeFromCart_def CartController_getOrCreateCart_def
      CartRepository_getOrCreateCart_def CartRepository_findByUserId_def
      CartRepository_removeItem_def CartRepository_findById_def recalculateTotals_def
      removeZ_def emptyRequest_def staleDb_def staleCart_def cartAB_def itemA_def itemB_def
      truthy_def Let_def)

text \<open>
  Claim C10, amended.  Let a remove request name a product (the route parameter is not
  empty) that has no line in the cart the request resolves to.  Then, for every such cart,
  \<open>removeItem\<close> returns and stores the cart with the same line items and with \<open>totalItems\<close> and
  \<open>totalAmount\<close> recomputed from them, and the controller answers 200 with that cart as data.
  The cart returned is the cart as it was, and the collection is left as it was, exactly
  when the cart's cached totals agreed with its lines, as they do after every mutation.
  The \<^verbatim>\<open>_id\<close>s of the stored carts are distinct.
\<close>

theorem removeFromCart_absent_product:
  assumes "params_productId req \<noteq> []"
    and "distinct (map cart_id (carts db))"
    and "CartController_getOrCreateCart req (carts db) = (cart, cs)"
    and "params_productId req \<notin> set (map productId (items cart))"
  shows "\<exists>cart'.
           cart' = cart\<lparr>totalItems := sum_list (map quantity (items cart)),
                        totalAmount :=
                          sum_list (map (\<lambda>item. price item * quantity item) (items cart))\<rparr> \<and>
           CartRepository_removeItem (cart_id cart) (params_productId req) cs
             = (Some cart', CartRepository_save cart' cs) \<and>
           CartController_removeFromCart req db
             = (reply 200 True (Some cart'), db\<lparr>carts := CartRepository_save cart' cs\<rparr>) \<and>
           CartRepository_findById (cart_id cart) (CartRepository_save cart' cs) = Some cart' \<and>
           items cart' = items cart \<and>
           (cart' = cart) = totalsConsistent cart \<and>
           (CartRepository_save cart' cs = cs) = totalsConsistent cart"
proof -
  let ?cart' = "recalculateTotals cart"
  have st: "CartRepository_findById (cart_id cart) cs = Some cart"
    using assms(2,3) getOrCreateCart_stored by (simp add: CartController_getOrCreateCart_def)
  have run: "CartRepository_removeItem (cart_id cart) (params_productId req) cs
      = (Some ?cart', CartRepository_save ?cart' cs)"
    by (rule removeItem_absent_recalculates [OF st assms(4)])
  have ctl: "CartController_removeFromCart req db
      = (reply 200 True (Some ?cart'), db\<lparr>carts := CartRepository_save ?cart' cs\<rparr>)"
    using assms(1,3) run by (simp add: CartController_removeFromCart_def)
  have stored: "CartRepository_findById (cart_id cart) (CartRepository_save ?cart' cs) = Some ?cart'"
    using findById_save [OF st, of ?cart'] by (simp add: cart_id_recalculateTotals)
  have fx: "(?cart' = cart) = totalsConsistent cart" by (rule recalculateTotals_fixed)
  have sv: "(CartRepository_save ?cart' cs = cs) = totalsConsistent cart"
  proof
    assume "CartRepository_save ?cart' cs = cs"
    with stored st have "?cart' = cart" by simp
    with fx show "totalsConsistent cart" by simp
  next
    assume "totalsConsistent cart"
    with fx have "?cart' = cart" by simp
    with save_same [OF st] show "CartRepository_save ?cart' cs = cs" by simp
  qed
  from run ctl stored fx sv show ?thesis
    by (simp add: recalculateTotals_eq [symmetric] items_recalculateTotals)
qed

text \<open>User u1 removes Z from the cart with A and B: 200, and the database is unchanged.\<close>

theorem removeFromCart_absent_product_witness:
  "params_productId removeZ \<noteq> [] \<and>
   distinct (map cart_id (carts shopDb)) \<and>
   CartController_getOrCreateCart removeZ (carts shopDb) = (cartAB, carts shopDb) \<and>
   params_productId removeZ \<notin> set (map productId (items cartAB)) \<and>
   totalsConsistent cartAB \<and>
   CartRepository_removeItem (cart_id cartAB) (params_productId removeZ) (carts shopDb)
     = (Some cartAB, carts shopDb) \<and>
   CartController_removeFromCart removeZ shopDb = (reply 200 True (Some cartAB), shopDb) \<and>
   statusCode (fst (CartController_removeFromCart removeZ shopDb)) = 200"
proof -
  have h1: "params_productId removeZ \<noteq> []"
    by (simp add: removeZ_def emptyRequest_def)
  have h2: "distinct (map cart_id (carts shopDb))"
    by (simp add: shopDb_def)
  have h3: "CartController_getOrCreateCart removeZ (carts shopDb) = (cartAB, carts shopDb)"
    by (simp add: CartController_getOrCreateCart_def CartRepository_getOrCreateCart_def
        CartRepository_findByUserId_def removeZ_def emptyRequest_def shopDb_def cartAB_def
        truthy_def Let_def)
  have h4: "params_productId removeZ \<notin> set (map productId (items cartAB))"
    by (simp add: removeZ_def emptyRequest_def cartAB_def itemA_def itemB_def)
  have h5: "totalsConsistent cartAB"
    by (simp add: totalsConsistent_def cartAB_def itemA_def itemB_def)
  from removeFromCart_absent_product [OF h1 h2 h3 h4] obtain cart' where
    c: "CartRepository_removeItem (cart_id cartAB) (params_productId removeZ) (carts shopDb)
          = (Some cart', CartRepository_save cart' (carts shopDb))"
       "CartController_removeFromCart removeZ shopDb
          = (reply 200 True (Some cart'), shopDb\<lparr>carts := CartRepository_save cart' (carts shopDb)\<rparr>)"
       "(cart' = cartAB) = totalsConsistent cartAB"
       "(CartRepository_save cart' (carts shopDb) = carts shopDb) = totalsConsistent cartAB"
    by blast
  from c(3,4) h5 have eq: "cart' = cartAB" "CartRepository_save cart' (carts shopDb) = carts shopDb"
    by simp_all
  have same: "shopDb\<lparr>carts := carts shopDb\<rparr> = shopDb"
    by simp
  from c(1,2) eq same
  have r: "CartRepository_removeItem (cart_id cartAB) (params_productId removeZ) (carts shopDb)
        = (Some cartAB, carts shopDb)"
      "CartController_removeFromCart removeZ shopDb = (reply 200 True (Some cartAB), shopDb)"
    by simp_all
  then have "statusCode (fst (CartController_removeFromCart removeZ shopDb)) = 200"
    by (simp add: reply_def)
  with h1 h2 h3 h4 h5 r show ?thesis by blast
qed

section \<open>Merging a guest cart on login\<close>

text \<open>
  Claim C4.  Let the guest cart be stored under \<open>guestCartId\<close>.

  If the user has an active cart, \<open>mergeGuestCart\<close> returns that cart with merged lines: its
  product ids are those of the two carts together, for every product the quantity held is
  the sum of the quantities the two carts held, distinct product ids stay distinct (one line
  per product), and the totals are recomputed.  The document stored under the guest cart's id
  ends with \<open>isActive = False\<close>; when the guest cart is another document than the user's
  cart, the merged cart is what is stored for the user and the guest cart is otherwise
  unchanged.

  If the user has no active cart, the result is the guest cart with \<open>userId\<close> set to the
  user, stored under the same id; being active, it is from then on the cart found for the
  user.
\<close>

theorem mergeGuestCart_outcome:
  assumes "CartRepository_findById guestCartId db = Some guestCart"
  shows "(\<forall>userCart. CartRepository_findByUserId uid db = Some userCart \<longrightarrow>
           (\<exists>merged db'.
              CartRepository_mergeGuestCart guestCartId uid db = (Some merged, db') \<and>
              cart_id merged = cart_id userCart \<and> userId merged = userId userCart \<and>
              set (map productId (items merged)) =
                set (map productId (items userCart)) \<union> set (map productId (items guestCart)) \<and>
              (\<forall>pid. lineQuantity pid (items merged) =
                       lineQuantity pid (items userCart) + lineQuantity pid (items guestCart)) \<and>
              (distinct (map productId (items userCart)) \<longrightarrow>
                 distinct (map productId (items merged))) \<and>
              totalItems merged = sum_list (map quantity (items merged)) \<and>
              totalAmount merged =
                sum_list (map (\<lambda>item. price item * quantity item) (items merged)) \<and>
              (\<exists>stored. CartRepository_findById guestCartId db' = Some stored \<and>
                        \<not> isActive stored) \<and>
              (guestCartId \<noteq> cart_id userCart \<longrightarrow>
                 CartRepository_findById (cart_id userCart) db' = Some merged \<and>
                 CartRepository_findById guestCartId db'
                   = Some (guestCart\<lparr>isActive := False\<rparr>)))) \<and>
         (CartRepository_findByUserId uid db = None \<longrightarrow>
            CartRepository_mergeGuestCart guestCartId uid db =
              (Some (guestCart\<lparr>userId := Some uid\<rparr>),
               CartRepository_save (guestCart\<lparr>userId := Some uid\<rparr>) db) \<and>
            CartRepository_findById guestCartId
                (CartRepository_save (guestCart\<lparr>userId := Some uid\<rparr>) db)
              = Some (guestCart\<lparr>userId := Some uid\<rparr>) \<and>
            (isActive guestCart \<longrightarrow>
               CartRepository_findByUserId uid
                   (CartRepository_save (guestCart\<lparr>userId := Some uid\<rparr>) db)
                 = Some (guestCart\<lparr>userId := Some uid\<rparr>)))"
proof (intro conjI allI impI)
  fix userCart
  assume u: "CartRepository_findByUserId uid db = Some userCart"
  from mergeGuestCart_into_user_cart [OF assms u] obtain merged db' where
    m: "CartRepository_mergeGuestCart guestCartId uid db = (Some merged, db')"
       "merged = recalculateTotals
                   (userCart\<lparr>items := mergeItems (items guestCart) (items userCart)\<rparr>)"
       "set (map productId (items merged)) =
          set (map productId (items userCart)) \<union> set (map productId (items guestCart))"
       "\<forall>pid. lineQuantity pid (items merged) =
                lineQuantity pid (items userCart) + lineQuantity pid (items guestCart)"
       "distinct (map productId (items userCart)) \<longrightarrow> distinct (map productId (items merged))"
       "totalsConsistent merged"
       "\<exists>stored. CartRepository_findById guestCartId db' = Some stored \<and> \<not> isActive stored"
       "guestCartId \<noteq> cart_id userCart \<longrightarrow>
          CartRepository_findById (cart_id userCart) db' = Some merged \<and>
          CartRepository_findById guestCartId db' = Some (guestCart\<lparr>isActive := False\<rparr>)"
    by blast
  from m(2) have ids: "cart_id merged = cart_id userCart" "userId merged = userId userCart"
    by (simp_all add: recalculateTotals_def)
  from m(6) have tot: "totalItems merged = sum_list (map quantity (items merged))"
      "totalAmount merged = sum_list (map (\<lambda>item. price item * quantity item) (items merged))"
    by (simp_all add: totalsConsistent_def)
  from m(1,3,4,5,7,8) ids tot
  show "\<exists>merged db'.
          CartRepository_mergeGuestCart guestCartId uid db = (Some merged, db') \<and>
          cart_id merged = cart_id userCart \<and> userId merged = userId userCart \<and>
          set (map productId (items merged)) =
            set (map productId (items userCart)) \<union> set (map productId (items guestCart)) \<and>
          (\<forall>pid. lineQuantity pid (items merged) =
                   lineQuantity pid (items userCart) + lineQuantity pid (items guestCart)) \<and>
          (distinct (map productId (items userCart)) \<longrightarrow>
             distinct (map productId (items merged))) \<and>
          totalItems merged = sum_list (map quantity (items merged)) \<and>
          totalAmount merged =
            sum_list (map (\<lambda>item. price item * quantity item) (items merged)) \<and>
          (\<exists>stored. CartRepository_findById guestCartId db' = Some stored \<and>
                    \<not> isActive stored) \<and>
          (guestCartId \<noteq> cart_id userCart \<longrightarrow>
             CartRepository_findById (cart_id userCart) db' = Some merged \<and>
             CartRepository_findById guestCartId db'
               = Some (guestCart\<lparr>isActive := False\<rparr>))"
    by blast
next
  assume "CartRepository_findByUserId uid db = None"
  from mergeGuestCart_rekey [OF assms this]
  show "CartRepository_mergeGuestCart guestCartId uid db =
          (Some (guestCart\<lparr>userId := Some uid\<rparr>),
           CartRepository_save (guestCart\<lparr>userId := Some uid\<rparr>) db)" by blast
next
  assume "CartRepository_findByUserId uid db = None"
  from mergeGuestCart_rekey [OF assms this]
  show "CartRepository_findById guestCartId
            (CartRepository_save (guestCart\<lparr>userId := Some uid\<rparr>) db)
          = Some (guestCart\<lparr>userId := Some uid\<rparr>)" by blast
next
  assume "CartRepository_findByUserId uid db = None" and "isActive guestCart"
  with mergeGuestCart_rekey [OF assms]
  show "CartRepository_findByUserId uid
            (CartRepository_save (guestCart\<lparr>userId := Some uid\<rparr>) db)
          = Some (guestCart\<lparr>userId := Some uid\<rparr>)" by blast
qed

text \<open>
  The guest cart with B (3) and C merged for u1, who has the cart with A (2) and B (1): the
  result holds A (2), B (4) and C (1), and the guest cart is stored inactive.  The same guest
  cart merged for u2, who has no cart, becomes the cart of u2.
\<close>

theorem mergeGuestCart_outcome_witness:
  "CartRepository_findById 2 [cartAB, guestCartBC] = Some guestCartBC \<and>
   CartRepository_findByUserId ''u1'' [cartAB, guestCartBC] = Some cartAB \<and>
   CartRepository_findByUserId ''u2'' [cartAB, guestCartBC] = None \<and>
   distinct (map productId (items cartAB)) \<and> 2 \<noteq> cart_id cartAB \<and> isActive guestCartBC \<and>
   CartRepository_mergeGuestCart 2 ''u1'' [cartAB, guestCartBC]
     = (Some cartMerged, [cartMerged, guestCartBC\<lparr>isActive := False\<rparr>]) \<and>
   (\<forall>pid. lineQuantity pid (items cartMerged) =
            lineQuantity pid (items cartAB) + lineQuantity pid (items guestCartBC)) \<and>
   distinct (map productId (items cartMerged)) \<and>
   CartRepository_findById 2 [cartMerged, guestCartBC\<lparr>isActive := False\<rparr>]
     = Some (guestCartBC\<lparr>isActive := False\<rparr>) \<and>
   CartRepository_mergeGuestCart 2 ''u2'' [cartAB, guestCartBC]
     = (Some (guestCartBC\<lparr>userId := Some ''u2''\<rparr>),
        [cartAB, guestCartBC\<lparr>userId := Some ''u2''\<rparr>]) \<and>
   CartRepository_findByUserId ''u2'' [cartAB, guestCartBC\<lparr>userId := Some ''u2''\<rparr>]
     = Some (guestCartBC\<lparr>userId := Some ''u2''\<rparr>)"
proof -
  have g: "CartRepository_findById 2 [cartAB, guestCartBC] = Some guestCartBC"
    by (simp add: CartRepository_findById_def cartAB_def guestCartBC_def)
  have u1: "CartRepository_findByUserId ''u1'' [cartAB, guestCartBC] = Some cartAB"
    by (simp add: CartRepository_findByUserId_def cartAB_def)
  have u2: "CartRepository_findByUserId ''u2'' [cartAB, guestCartBC] = None"
    by (simp add: CartRepository_findByUserId_def cartAB_def guestCartBC_def)
  have d: "distinct (map productId (items cartAB))"
    by (simp add: cartAB_def itemA_def itemB_def)
  have ne: "2 \<noteq> cart_id cartAB"
    by (simp add: cartAB_def)
  have act: "isActive guestCartBC"
    by (simp add: guestCartBC_def)
  have sv: "CartRepository_save (guestCartBC\<lparr>userId := Some ''u2''\<rparr>) [cartAB, guestCartBC]
      = [cartAB, guestCartBC\<lparr>userId := Some ''u2''\<rparr>]"
    by (simp add: cartAB_def guestCartBC_def)
  have run1: "CartRepository_mergeGuestCart 2 ''u1'' [cartAB, guestCartBC]
     = (Some cartMerged, [cartMerged, guestCartBC\<lparr>isActive := False\<rparr>])"
    by (simp add: CartRepository_mergeGuestCart_def CartRepository_findById_def
        CartRepository_findByUserId_def CartRepository_deactivateCart_def
        CartRepository_findByIdAndUpdate_def cartAB_def guestCartBC_def cartMerged_def
        itemA_def itemB_def itemC_def guestItemB_def addOrIncrement_def recalculateTotals_def
        Let_def)
  note thm1 = mergeGuestCart_outcome [OF g, of "''u1''"]
  note thm2 = mergeGuestCart_outcome [OF g, of "''u2''"]
  from thm1 u1 obtain merged db' where
    m: "CartRepository_mergeGuestCart 2 ''u1'' [cartAB, guestCartBC] = (Some merged, db')"
       "\<forall>pid. lineQuantity pid (items merged) =
                lineQuantity pid (items cartAB) + lineQuantity pid (items guestCartBC)"
       "distinct (map productId (items cartAB)) \<longrightarrow> distinct (map productId (items merged))"
       "2 \<noteq> cart_id cartAB \<longrightarrow>
          CartRepository_findById (cart_id cartAB) db' = Some merged \<and>
          CartRepository_findById 2 db' = Some (guestCartBC\<lparr>isActive := False\<rparr>)"
    by blast
  from m(1) run1 have eq: "merged = cartMerged"
      "db' = [cartMerged, guestCartBC\<lparr>isActive := False\<rparr>]"
    by simp_all
  from thm2 u2 act have r2:
    "CartRepository_mergeGuestCart 2 ''u2'' [cartAB, guestCartBC] =
       (Some (guestCartBC\<lparr>userId := Some ''u2''\<rparr>),
        CartRepository_save (guestCartBC\<lparr>userId := Some ''u2''\<rparr>) [cartAB, guestCartBC])"
    "CartRepository_findByUserId ''u2''
        (CartRepository_save (guestCartBC\<lparr>userId := Some ''u2''\<rparr>) [cartAB, guestCartBC])
       = Some (guestCartBC\<lparr>userId := Some ''u2''\<rparr>)"
    by blast+
  from g u1 u2 d ne act run1 m(2,3,4) eq r2 sv show ?thesis
    by simp
qed

section \<open>Checkout and the stock check\<close>

text \<open>
  Claim C2.  Let an authenticated user check out a non-empty cart.  If for any line of the
  cart the product is not in the catalog or its stock is below the line's quantity,
  \<open>createOrder\<close> answers 400 and leaves the whole database, the orders in particular, as it
  was.  And whenever \<open>createOrder\<close> changes the order collection, every line of the cart had
  its product in the catalog with at least the requested quantity in stock.
\<close>

theorem createOrder_stock_check:
  assumes "user_id req = Some uid" and "uid \<noteq> []"
    and "CartRepository_findByUserId uid (carts db) = Some cart"
    and "items cart \<noteq> []"
  shows "((\<exists>line\<in>set (items cart).
             (case ProductRepository_findById (productId line) (products db) of
                None \<Rightarrow> True
              | Some product \<Rightarrow> stock product < quantity line)) \<longrightarrow>
          OrderController_createOrder gw generated req db = (reply 400 False None, db)) \<and>
         (orders (snd (OrderController_createOrder gw generated req db)) \<noteq> orders db \<longrightarrow>
          (\<forall>line\<in>set (items cart). \<exists>product.
              ProductRepository_findById (productId line) (products db) = Some product \<and>
              quantity line \<le> stock product))"
proof -
  have a: "(\<exists>line\<in>set (items cart).
             (case ProductRepository_findById (productId line) (products db) of
                None \<Rightarrow> True
              | Some product \<Rightarrow> stock product < quantity line)) \<longrightarrow>
          OrderController_createOrder gw generated req db = (reply 400 False None, db)"
  proof
    assume "\<exists>line\<in>set (items cart).
             (case ProductRepository_findById (productId line) (products db) of
                None \<Rightarrow> True
              | Some product \<Rightarrow> stock product < quantity line)"
    from validateCartItems_fails [OF this] obtain failure where
      "validateCartItems (products db) (items cart) ([], 0, 0) = Inl failure" by blast
    from createOrder_rejects [OF assms(1,2,3) this]
    show "OrderController_createOrder gw generated req db = (reply 400 False None, db)" .
  qed
  have b: "orders (snd (OrderController_createOrder gw generated req db)) \<noteq> orders db \<longrightarrow>
          (\<forall>line\<in>set (items cart). \<exists>product.
              ProductRepository_findById (productId line) (products db) = Some product \<and>
              quantity line \<le> stock product)"
  proof
    assume ch: "orders (snd (OrderController_createOrder gw generated req db)) \<noteq> orders db"
    have "\<exists>r. validateCartItems (products db) (items cart) ([], 0, 0) = Inr r"
    proof (cases "validateCartItems (products db) (items cart) ([], 0, 0)")
      case (Inl failure)
      from createOrder_rejects [OF assms(1,2,3) this] ch show ?thesis by simp
    next
      case (Inr r)
      then show ?thesis by blast
    qed
    then show "\<forall>line\<in>set (items cart). \<exists>product.
              ProductRepository_findById (productId line) (products db) = Some product \<and>
              quantity line \<le> stock product"
      using validateCartItems_Inr_iff [of "products db" "items cart" "([], 0, 0)"] by blast
  qed
  from a b show ?thesis by blast
qed

text \<open>
  The cart with A and B is refused, B being out of stock; the cart with A alone is turned
  into the order \<open>orderA\<close>.
\<close>

theorem createOrder_stock_check_witness:
  "user_id checkoutCOD = Some ''u1'' \<and> ''u1'' \<noteq> [] \<and>
   CartRepository_findByUserId ''u1'' (carts shopDb) = Some cartAB \<and> items cartAB \<noteq> [] \<and>
   (\<exists>line\<in>set (items cartAB).
      (case ProductRepository_findById (productId line) (products shopDb) of
         None \<Rightarrow> True
       | Some product \<Rightarrow> stock product < quantity line)) \<and>
   OrderController_createOrder noGateway ''ORD1'' checkoutCOD shopDb
     = (reply 400 False None, shopDb) \<and>
   CartRepository_findByUserId ''u1'' (carts shopDbA) = Some cartA \<and> items cartA \<noteq> [] \<and>
   orders (snd (OrderController_createOrder noGateway ''ORD1'' checkoutCOD shopDbA)) = [orderA] \<and>
   orders (snd (OrderController_createOrder noGateway ''ORD1'' checkoutCOD shopDbA))
     \<noteq> orders shopDbA \<and>
   itemA \<in> set (items cartA) \<and>
   (\<exists>product.
      ProductRepository_findById (productId itemA) (products shopDbA) = Some product \<and>
      quantity itemA \<le> stock product)"
proof -
  have u: "user_id checkoutCOD = Some ''u1''" "''u1'' \<noteq> []"
    by (simp_all add: checkoutCOD_def emptyRequest_def)
  have c1: "CartRepository_findByUserId ''u1'' (carts shopDb) = Some cartAB"
    by (simp add: CartRepository_findByUserId_def shopDb_def cartAB_def)
  have n1: "items cartAB \<noteq> []"
    by (simp add: cartAB_def)
  have bad: "\<exists>line\<in>set (items cartAB).
      (case ProductRepository_findById (productId line) (products shopDb) of
         None \<Rightarrow> True
       | Some product \<Rightarrow> stock product < quantity line)"
    by (simp add: cartAB_def itemA_def itemB_def shopDb_def productA_def productB_def
        ProductRepository_findById_def)
  have c2: "CartRepository_findByUserId ''u1'' (carts shopDbA) = Some cartA"
    by (simp add: CartRepository_findByUserId_def shopDbA_def cartA_def)
  have n2: "items cartA \<noteq> []"
    by (simp add: cartA_def)
  have run: "orders (snd (OrderController_createOrder noGateway ''ORD1'' checkoutCOD shopDbA))
      = [orderA]"
    by (simp add: OrderController_createOrder_def checkoutCOD_def emptyRequest_def shopDbA_def
        cartA_def itemA_def productA_def productB_def orderA_def nonEmpty_def truthy_def
        CartRepository_findByUserId_def ProductRepository_findById_def
        OrderRepository_create_def freshId_def Let_def)
  then have ch: "orders (snd (OrderController_createOrder noGateway ''ORD1'' checkoutCOD shopDbA))
      \<noteq> orders shopDbA"
    by (simp add: shopDbA_def)
  note refused = createOrder_stock_check
    [OF u c1 n1, where gw = noGateway and generated = "''ORD1''"]
  note created = createOrder_stock_check
    [OF u c2 n2, where gw = noGateway and generated = "''ORD1''"]
  from refused bad have r: "OrderController_createOrder noGateway ''ORD1'' checkoutCOD shopDb
     = (reply 400 False None, shopDb)"
    by blast
  have mem: "itemA \<in> set (items cartA)"
    by (simp add: cartA_def)
  from created ch mem have ok: "\<exists>product.
      ProductRepository_findById (productId itemA) (products shopDbA) = Some product \<and>
      quantity itemA \<le> stock product"
    by blast
  from u c1 n1 bad r c2 n2 run ch mem ok show ?thesis by blast
qed

section \<open>Cancelling shipped and delivered orders\<close>




section \<open>The payment callback\<close>

text \<open>
  Claim C5.  For a checkout-session-completed event the handler is to retrieve the session
  from the gateway and set the order's payment status to PAID exactly when the retrieved
  session is \<open>paid\<close>.  The code does not do so for an event in the gateway's own layout.
  The handler is handed the whole event: \<^verbatim>\<open>session.id\<close> is the event's id, not the
  session's, and the order number is looked for in \<^verbatim>\<open>orderNum\<close> and \<^verbatim>\<open>metadata.orderNum\<close> at
  the top of the event, where the gateway puts nothing; \<^verbatim>\<open>createOrder\<close> attached it as
  \<^verbatim>\<open>metadata.orderNumber\<close> of the session, which arrives under \<^verbatim>\<open>data.object\<close>.  So for the
  event of the paid session \<open>cs_1\<close> of order ORD1 the handler answers ``Missing session ID or
  order ID'', the reply is 200, and the order stays PENDING.
\<close>

theorem handleCheckoutSessionCompleted_skips_gateway_event:
  "event_type gatewayEvent = Some ''checkout.session.completed'' \<and>
   data_object_id gatewayEvent = Some ''cs_1'' \<and>
   data_object_metadata_orderNumber gatewayEvent = Some ''ORD1'' \<and>
   retrieveCheckoutSession paidGateway ''cs_1'' = Some paidSession \<and>
   payment_status paidSession = ''paid'' \<and>
   OrderRepository_findByOrderNumber ''ORD1'' (orders pendingDb) = Some pendingOrder \<and>
   sessionId pendingOrder = Some ''cs_1'' \<and>
   paymentStatus pendingOrder = ''PENDING'' \<and>
   StripeWebhookController_handleCheckoutSessionCompleted paidGateway gatewayEvent
       (orders pendingDb)
     = (\<lparr>processed = False, message = ''Missing session ID or order ID''\<rparr>,
        orders pendingDb) \<and>
   StripeWebhookController_handleWebhook paidGateway gatewayWebhook pendingDb
     = (reply 200 True (Some ''Missing session ID or order ID''), pendingDb)"
  by (simp add: StripeWebhookController_handleWebhook_def
      StripeWebhookController_receiveEvent_def StripeWebhookController_processWebhookEvent_def
      StripeWebhookController_handleCheckoutSessionCompleted_def
      OrderRepository_findByOrderNumber_def gatewayWebhook_def emptyRequest_def
      gatewayEvent_def pendingDb_def pendingOrder_def paidGateway_def paidSession_def
      orElse_def nonEmpty_def truthy_def)

text \<open>
  What the handler does do, on an event that has a session id as \<^verbatim>\<open>id\<close> (or else
  \<^verbatim>\<open>data.object.id\<close>) and an order number as \<^verbatim>\<open>orderNum\<close> (or else \<^verbatim>\<open>metadata.orderNum\<close>): if
  the gateway returns the session for that id and the number is that of an active order,
  the order is stored with payment status PAID if the retrieved session's
  \<^verbatim>\<open>payment_status\<close> is \<open>paid\<close> and PENDING for every other value, and the status in the
  payload plays no part.  The \<^verbatim>\<open>_id\<close>s of the stored orders are distinct.
\<close>

lemma handleCheckoutSessionCompleted_payment_status:
  assumes "nonEmpty (orElse (event_id session) (data_object_id session)) = Some sid"
    and "nonEmpty (orElse (orderNum session) (metadata_orderNum session)) = Some num"
    and "retrieveCheckoutSession gw sid = Some stripeSession"
    and "OrderRepository_findByOrderNumber num db = Some order"
    and "distinct (map order_id db)"
  shows "\<exists>result db'.
           StripeWebhookController_handleCheckoutSessionCompleted gw session db = (result, db') \<and>
           processed result \<and>
           OrderRepository_findById (order_id order) db' =
             Some (order\<lparr>paymentStatus := (if payment_status stripeSession = ''paid''
                                             then ''PAID'' else ''PENDING''),
                         transactionId := Some sid\<rparr>) \<and>
           (\<forall>payloadStatus.
              StripeWebhookController_handleCheckoutSessionCompleted gw
                (session\<lparr>data_object_payment_status := payloadStatus\<rparr>) db = (result, db'))"
proof -
  from handleCheckoutSessionCompleted_updates [OF assms] obtain result db' where
    r: "StripeWebhookController_handleCheckoutSessionCompleted gw session db = (result, db')"
       "processed result"
       "OrderRepository_findById (order_id order) db' =
          Some (order\<lparr>paymentStatus := (if payment_status stripeSession = ''paid''
                                          then ''PAID'' else ''PENDING''),
                      transactionId := Some sid\<rparr>)"
    by blast
  from r(1) have "\<forall>payloadStatus.
      StripeWebhookController_handleCheckoutSessionCompleted gw
        (session\<lparr>data_object_payment_status := payloadStatus\<rparr>) db = (result, db')"
    by (simp add: handleCheckoutSessionCompleted_ignores_payload_status)
  with r show ?thesis by blast
qed

text \<open>
  The event in the simplified layout for order ORD1: the payload says \<open>unpaid\<close>, the gateway
  says \<open>paid\<close>, and the order is stored as PAID.
\<close>

lemma handleCheckoutSessionCompleted_payment_status_example:
  "nonEmpty (orElse (event_id simplifiedEvent) (data_object_id simplifiedEvent)) = Some ''cs_1'' \<and>
   nonEmpty (orElse (orderNum simplifiedEvent) (metadata_orderNum simplifiedEvent)) = Some ''ORD1'' \<and>
   retrieveCheckoutSession paidGateway ''cs_1'' = Some paidSession \<and>
   OrderRepository_findByOrderNumber ''ORD1'' [pendingOrder] = Some pendingOrder \<and>
   distinct (map order_id [pendingOrder]) \<and>
   data_object_payment_status simplifiedEvent = Some ''unpaid'' \<and>
   (\<exists>result db'.
      StripeWebhookController_handleCheckoutSessionCompleted paidGateway simplifiedEvent
          [pendingOrder] = (result, db') \<and>
      processed result \<and>
      OrderRepository_findById 1 db' =
        Some (pendingOrder\<lparr>paymentStatus := ''PAID'', transactionId := Some ''cs_1''\<rparr>))"
proof -
  have h1: "nonEmpty (orElse (event_id simplifiedEvent) (data_object_id simplifiedEvent))
      = Some ''cs_1''"
    by (simp add: simplifiedEvent_def orElse_def nonEmpty_def truthy_def)
  have h2: "nonEmpty (orElse (orderNum simplifiedEvent) (metadata_orderNum simplifiedEvent))
      = Some ''ORD1''"
    by (simp add: simplifiedEvent_def orElse_def nonEmpty_def truthy_def)
  have h3: "retrieveCheckoutSession paidGateway ''cs_1'' = Some paidSession"
    by (simp add: paidGateway_def)
  have h4: "OrderRepository_findByOrderNumber ''ORD1'' [pendingOrder] = Some pendingOrder"
    by (simp add: OrderRepository_findByOrderNumber_def pendingOrder_def)
  have h5: "distinct (map order_id [pendingOrder])"
    by simp
  have p: "data_object_payment_status simplifiedEvent = Some ''unpaid''"
    by (simp add: simplifiedEvent_def)
  have paid: "payment_status paidSession = ''paid''" and id: "order_id pendingOrder = 1"
    by (simp_all add: paidSession_def pendingOrder_def)
  from handleCheckoutSessionCompleted_payment_status [OF h1 h2 h3 h4 h5] paid id
  have "\<exists>result db'.
      StripeWebhookController_handleCheckoutSessionCompleted paidGateway simplifiedEvent
          [pendingOrder] = (result, db') \<and>
      processed result \<and>
      OrderRepository_findById 1 db' =
        Some (pendingOrder\<lparr>paymentStatus := ''PAID'', transactionId := Some ''cs_1''\<rparr>)"
    by auto
  with h1 h2 h3 h4 h5 p show ?thesis by blast
qed

text \<open>
  Claim C6.  Let the webhook request yield an event (its signature verifies, or it carries
  none and has a type) of type checkout.session.completed whose order number, if it has one,
  is that of no active order.  Then the handler leaves the orders as they are and returns a
  result with \<open>processed = False\<close> and a non-empty message, ``Order not found: '' followed by
  the number when the session could be retrieved; and the reply has status 200 and leaves
  the database as it is.
\<close>

theorem handleWebhook_unknown_order:
  assumes "StripeWebhookController_receiveEvent gw req = Some event"
    and "event_type event = Some ''checkout.session.completed''"
    and "\<forall>num. nonEmpty (orElse (orderNum event) (metadata_orderNum event)) = Some num \<longrightarrow>
           OrderRepository_findByOrderNumber num (orders db) = None"
  shows "\<exists>result.
           StripeWebhookController_handleCheckoutSessionCompleted gw event (orders db)
             = (result, orders db) \<and>
           \<not> processed result \<and> message result \<noteq> [] \<and>
           (\<forall>sid num stripeSession.
              nonEmpty (orElse (event_id event) (data_object_id event)) = Some sid \<and>
              nonEmpty (orElse (orderNum event) (metadata_orderNum event)) = Some num \<and>
              retrieveCheckoutSession gw sid = Some stripeSession \<longrightarrow>
                message result = ''Order not found: '' @ num) \<and>
           StripeWebhookController_handleWebhook gw req db
             = (reply 200 True (Some (message result)), db) \<and>
           statusCode (fst (StripeWebhookController_handleWebhook gw req db)) = 200"
proof -
  from handleCheckoutSessionCompleted_not_found [OF assms(3), of gw] obtain result where
    r: "StripeWebhookController_handleCheckoutSessionCompleted gw event (orders db)
          = (result, orders db)"
       "\<not> processed result" "message result \<noteq> []"
       "\<forall>sid num stripeSession.
          nonEmpty (orElse (event_id event) (data_object_id event)) = Some sid \<and>
          nonEmpty (orElse (orderNum event) (metadata_orderNum event)) = Some num \<and>
          retrieveCheckoutSession gw sid = Some stripeSession \<longrightarrow>
            message result = ''Order not found: '' @ num"
    by blast
  have w: "StripeWebhookController_handleWebhook gw req db
      = (reply 200 True (Some (message result)), db)"
    by (rule handleWebhook_reply [OF assms(1,2) r(1)])
  then have "statusCode (fst (StripeWebhookController_handleWebhook gw req db)) = 200"
    by (simp add: reply_def)
  with r w show ?thesis by blast
qed

text \<open>The event for order number ORD9, which no order has.\<close>

theorem handleWebhook_unknown_order_witness:
  "StripeWebhookController_receiveEvent paidGateway unknownOrderWebhook = Some unknownOrderEvent \<and>
   event_type unknownOrderEvent = Some ''checkout.session.completed'' \<and>
   nonEmpty (orElse (event_id unknownOrderEvent) (data_object_id unknownOrderEvent))
     = Some ''cs_1'' \<and>
   nonEmpty (orElse (orderNum unknownOrderEvent) (metadata_orderNum unknownOrderEvent))
     = Some ''ORD9'' \<and>
   retrieveCheckoutSession paidGateway ''cs_1'' = Some paidSession \<and>
   OrderRepository_findByOrderNumber ''ORD9'' (orders pendingDb) = None \<and>
   StripeWebhookController_handleCheckoutSessionCompleted paidGateway unknownOrderEvent
       (orders pendingDb)
     = (\<lparr>processed = False, message = ''Order not found: ORD9''\<rparr>, orders pendingDb) \<and>
   StripeWebhookController_handleWebhook paidGateway unknownOrderWebhook pendingDb
     = (reply 200 True (Some ''Order not found: ORD9''), pendingDb)"
proof -
  have h1: "StripeWebhookController_receiveEvent paidGateway unknownOrderWebhook
      = Some unknownOrderEvent"
    by (simp add: StripeWebhookController_receiveEvent_def unknownOrderWebhook_def
        emptyRequest_def unknownOrderEvent_def truthy_def)
  have h2: "event_type unknownOrderEvent = Some ''checkout.session.completed''"
    by (simp add: unknownOrderEvent_def)
  have sid: "nonEmpty (orElse (event_id unknownOrderEvent) (data_object_id unknownOrderEvent))
      = Some ''cs_1''"
    by (simp add: unknownOrderEvent_def orElse_def nonEmpty_def truthy_def)
  have num: "nonEmpty (orElse (orderNum unknownOrderEvent) (metadata_orderNum unknownOrderEvent))
      = Some ''ORD9''"
    by (simp add: unknownOrderEvent_def orElse_def nonEmpty_def truthy_def)
  have ret: "retrieveCheckoutSession paidGateway ''cs_1'' = Some paidSession"
    by (simp add: paidGateway_def)
  have none: "OrderRepository_findByOrderNumber ''ORD9'' (orders pendingDb) = None"
    by (simp add: OrderRepository_findByOrderNumber_def pendingDb_def pendingOrder_def)
  from num none have h3: "\<forall>n.
      nonEmpty (orElse (orderNum unknownOrderEvent) (metadata_orderNum unknownOrderEvent)) = Some n
        \<longrightarrow> OrderRepository_findByOrderNumber n (orders pendingDb) = None"
    by simp
  from handleWebhook_unknown_order [OF h1 h2 h3] obtain result where
    r: "StripeWebhookController_handleCheckoutSessionCompleted paidGateway unknownOrderEvent
          (orders pendingDb) = (result, orders pendingDb)"
       "\<not> processed result"
       "\<forall>sid num stripeSession.
          nonEmpty (orElse (event_id unknownOrderEvent) (data_object_id unknownOrderEvent))
            = Some sid \<and>
          nonEmpty (orElse (orderNum unknownOrderEvent) (metadata_orderNum unknownOrderEvent))
            = Some num \<and>
          retrieveCheckoutSession paidGateway sid = Some stripeSession \<longrightarrow>
            message result = ''Order not found: '' @ num"
       "StripeWebhookController_handleWebhook paidGateway unknownOrderWebhook pendingDb
          = (reply 200 True (Some (message result)), pendingDb)"
    by blast
  from r(3) sid num ret have m: "message result = ''Order not found: ORD9''"
    by simp
  with r(2) have "result = \<lparr>processed = False, message = ''Order not found: ORD9''\<rparr>"
    by (cases result) simp
  with h1 h2 sid num ret none r(1,4) show ?thesis by simp
qed

section \<open>A customer's message on a waiting ticket\<close>

text \<open>
  Claim C9.  When the authenticated owner of a ticket sends a non-empty message, the reply
  is 200 and the ticket is stored with the message appended at the end of its message list
  (sent by the user, in the role USER, dated now) and with status OPEN if the status was
  WAITING_CUSTOMER, the status it had otherwise.  The ticket in the reply is the one read
  back right after the message was pushed, so it shows the status from before.
\<close>

theorem addMessage_reopens_waiting_ticket:
  assumes "user_id req = Some uid" and "uid \<noteq> []"
    and "body_message req = Some msg" and "msg \<noteq> []"
    and "TicketRepository_findByTicketId (params_ticketId req) (tickets db) = Some ticket"
    and "user ticket = uid"
  shows "\<exists>db'.
           TicketController_addMessage now req db =
             (reply 200 True
                (Some (ticket\<lparr>messages := messages ticket @
                          [\<lparr>sender = uid, senderRole = USER, message = msg,
                            attachments = (case body_attachments req of Some a \<Rightarrow> a | None \<Rightarrow> []),
                            createdAt = now\<rparr>],
                        lastResponseAt := Some now\<rparr>)), db') \<and>
           TicketRepository_findByTicketId (params_ticketId req) (tickets db') =
             Some (ticket\<lparr>messages := messages ticket @
                      [\<lparr>sender = uid, senderRole = USER, message = msg,
                        attachments = (case body_attachments req of Some a \<Rightarrow> a | None \<Rightarrow> []),
                        createdAt = now\<rparr>],
                    lastResponseAt := Some now,
                    status := (if status ticket = WAITING_CUSTOMER then OPEN else status ticket)\<rparr>)"
proof -
  let ?m = "\<lparr>sender = uid, senderRole = USER, message = msg,
             attachments = (case body_attachments req of Some a \<Rightarrow> a | None \<Rightarrow> []),
             createdAt = now\<rparr>"
  let ?tid = "params_ticketId req"
  let ?push = "\<lambda>t. t\<lparr>messages := messages t @ [?m], lastResponseAt := Some (createdAt ?m)\<rparr>"
  let ?st = "if status ticket = WAITING_CUSTOMER then OPEN else status ticket"
  let ?set = "\<lambda>t. t\<lparr>status := ?st\<rparr>"
  have "ticketId (?push ticket) = ticketId ticket" by simp
  from TicketRepository_findOneAndUpdate_found [of ?tid "tickets db" ticket ?push, OF assms(5) this]
  obtain ts1 where ts1: "TicketRepository_findOneAndUpdate ?tid ?push (tickets db) = (Some (?push ticket), ts1)"
    "TicketRepository_findByTicketId ?tid ts1 = Some (?push ticket)" by blast
  have "ticketId (?set (?push ticket)) = ticketId (?push ticket)" by simp
  from TicketRepository_findOneAndUpdate_found [of ?tid ts1 "?push ticket" ?set, OF ts1(2) this]
  obtain ts2 where ts2: "TicketRepository_findOneAndUpdate ?tid ?set ts1 = (Some (?set (?push ticket)), ts2)"
    "TicketRepository_findByTicketId ?tid ts2 = Some (?set (?push ticket))" by blast
  have run: "TicketController_addMessage now req db =
      (reply 200 True (Some (?push ticket)), db\<lparr>tickets := ts2\<rparr>)"
    using assms ts1(1) ts2(1)
    by (simp add: TicketController_addMessage_def nonEmpty_Some TicketRepository_addMessage_def
        TicketRepository_updateStatus_def Let_def)
  from run ts2(2) show ?thesis by simp
qed

text \<open>
  The specification's example: the customer answers on a ticket an admin had set to
  WAITING_CUSTOMER, and the ticket is OPEN again.
\<close>

theorem addMessage_reopens_waiting_ticket_witness:
  "user_id customerReply = Some ''u1'' \<and> ''u1'' \<noteq> [] \<and>
   body_message customerReply = Some ''Order ORD1'' \<and> ''Order ORD1'' \<noteq> [] \<and>
   TicketRepository_findByTicketId (params_ticketId customerReply) (tickets ticketDb)
     = Some waitingTicket \<and>
   user waitingTicket = ''u1'' \<and> status waitingTicket = WAITING_CUSTOMER \<and>
   (\<exists>db'. TicketController_addMessage 9 customerReply ticketDb
            = (reply 200 True (Some (repliedTicket\<lparr>status := WAITING_CUSTOMER\<rparr>)), db') \<and>
          TicketRepository_findByTicketId ''TKT1'' (tickets db') = Some repliedTicket) \<and>
   status repliedTicket = OPEN"
proof -
  have h1: "user_id customerReply = Some ''u1''" and h2: "''u1'' \<noteq> []"
    and h3: "body_message customerReply = Some ''Order ORD1''" and h4: "''Order ORD1'' \<noteq> []"
    by (simp_all add: customerReply_def emptyRequest_def)
  have h5: "TicketRepository_findByTicketId (params_ticketId customerReply) (tickets ticketDb)
      = Some waitingTicket"
    by (simp add: TicketRepository_findByTicketId_def customerReply_def emptyRequest_def
        ticketDb_def waitingTicket_def)
  have h6: "user waitingTicket = ''u1''" and st: "status waitingTicket = WAITING_CUSTOMER"
    by (simp_all add: waitingTicket_def)
  have p: "params_ticketId customerReply = ''TKT1''"
    by (simp add: customerReply_def emptyRequest_def)
  from addMessage_reopens_waiting_ticket [OF h1 h2 h3 h4 h5 h6, of 9]
  have "\<exists>db'. TicketController_addMessage 9 customerReply ticketDb
            = (reply 200 True (Some (repliedTicket\<lparr>status := WAITING_CUSTOMER\<rparr>)), db') \<and>
          TicketRepository_findByTicketId ''TKT1'' (tickets db') = Some repliedTicket"
    unfolding p
    by (simp add: waitingTicket_def repliedTicket_def customerReply_def emptyRequest_def)
  moreover have "status repliedTicket = OPEN"
    by (simp add: repliedTicket_def)
  ultimately show ?thesis using h1 h2 h3 h4 h5 h6 st by blast
qed

end
